theory Spec2Isabelle
  imports Main "HOL-Library.Sublist" "HOL-Library.AList"
begin

section \<open>Python values\<close>

text \<open>
  Values of type \<^verbatim>\<open>Any\<close> as they come out of a parsed YAML or JSON document. A dict keeps
  its insertion order, so it is an association list; keys are strings. Floating point
  numbers are left out. Python's \<^verbatim>\<open>==\<close> on such values is HOL equality, except for
  dicts compared as a whole, which use \<open>dict_eq\<close>.
\<close>

datatype json =
    JNull
  | JBool bool
  | JInt int
  | JStr string
  | JList "json list"
  | JDict "(string \<times> json) list"

type_synonym pydict = "(string \<times> json) list"

text \<open>\<^verbatim>\<open>bool(x)\<close>\<close>

fun truthy :: "json \<Rightarrow> bool" where
  "truthy JNull = False"
| "truthy (JBool b) = b"
| "truthy (JInt i) = (i \<noteq> 0)"
| "truthy (JStr s) = (s \<noteq> [])"
| "truthy (JList xs) = (xs \<noteq> [])"
| "truthy (JDict d) = (d \<noteq> [])"

text \<open>\<^verbatim>\<open>k in d\<close>, \<^verbatim>\<open>d.get(k)\<close> (None when absent), \<^verbatim>\<open>d[k] = v\<close>, \<^verbatim>\<open>del d[k]\<close>\<close>

definition dict_has :: "(string \<times> 'a) list \<Rightarrow> string \<Rightarrow> bool" where
  "dict_has d k = (map_of d k \<noteq> None)"

definition dict_get :: "pydict \<Rightarrow> string \<Rightarrow> json" where
  "dict_get d k = (case map_of d k of None \<Rightarrow> JNull | Some v \<Rightarrow> v)"

definition dict_set :: "string \<Rightarrow> 'a \<Rightarrow> (string \<times> 'a) list \<Rightarrow> (string \<times> 'a) list" where
  "dict_set k v d = AList.update k v d"

definition dict_del :: "string \<Rightarrow> (string \<times> 'a) list \<Rightarrow> (string \<times> 'a) list" where
  "dict_del k d = AList.delete k d"

text \<open>
  \<^verbatim>\<open>d1 == d2\<close> on dicts: the same keys with equal values, in any order. The values are
  compared as trees: a dict nested in a value is compared with its order, and a bool is
  not equal to the integer Python takes it for.
\<close>

definition dict_eq :: "(string \<times> 'a) list \<Rightarrow> (string \<times> 'a) list \<Rightarrow> bool" where
  "dict_eq a b =
     (list_all (\<lambda>k. map_of a k = map_of b k) (map fst a) \<and>
      list_all (\<lambda>k. map_of a k = map_of b k) (map fst b))"

text \<open>\<^verbatim>\<open>sep.join(xs)\<close> and \<^verbatim>\<open>s.startswith(p)\<close>\<close>

fun join :: "string \<Rightarrow> string list \<Rightarrow> string" where
  "join sep [] = []"
| "join sep [x] = x"
| "join sep (x # y # ys) = x @ sep @ join sep (y # ys)"

definition startswith :: "string \<Rightarrow> string \<Rightarrow> bool" where
  "startswith s p = (take (length p) s = p)"

section \<open>Graph nodes (dbt/contracts/graph/nodes.py)\<close>

text \<open>
  Modelled from the spec: \<^verbatim>\<open>FileHash\<close> (dbt/contracts/files.py is not among the sources).
  A checksum has a name (the hash algorithm, or \<^verbatim>\<open>path\<close> for the sentinel used above
  the size threshold) and the checksum text; identical checksums compare equal.
\<close>

record FileHash =
  name :: string
  checksum :: string

record Hook =
  sql :: string

text \<open>
  The fields of the node configuration classes that the node methods read
  (\<^verbatim>\<open>persist_docs\<close> is absent from the test configuration, hence the option).
\<close>

record NodeConfig =
  persist_docs :: "pydict option"
  pre_hook :: "Hook list"
  post_hook :: "Hook list"

record ColumnInfo =
  name :: string
  description :: string

record BaseNode =
  name :: string
  package_name :: string
  unique_id :: string

record GraphNode = BaseNode +
  fqn :: "string list"

record ParsedNode = GraphNode +
  checksum :: FileHash
  config :: NodeConfig
  description :: string
  columns :: "(string \<times> ColumnInfo) list"
  unrendered_config :: pydict
  raw_code :: string

definition same_fqn :: "'a GraphNode_scheme \<Rightarrow> 'b GraphNode_scheme \<Rightarrow> bool" where
  "same_fqn self other = (fqn self = fqn other)"

text \<open>
  Modelled from the spec: the \<^verbatim>\<open>same_contents\<close> class method of the configuration classes
  (dbt/contracts/graph/model_config.py is not among the sources). The configuration is
  unchanged when the unrendered config dicts are equal.
\<close>

definition config_same_contents :: "pydict \<Rightarrow> pydict \<Rightarrow> bool" where
  "config_same_contents unrendered other = dict_eq unrendered other"

definition persist_column_docs :: "'a ParsedNode_scheme \<Rightarrow> bool" where
  "persist_column_docs self =
     (case persist_docs (config self) of
        Some pd \<Rightarrow> truthy (dict_get pd ''columns'')
      | None \<Rightarrow> False)"

definition persist_relation_docs :: "'a ParsedNode_scheme \<Rightarrow> bool" where
  "persist_relation_docs self =
     (case persist_docs (config self) of
        Some pd \<Rightarrow> truthy (dict_get pd ''relation'')
      | None \<Rightarrow> False)"

definition column_descriptions :: "'a ParsedNode_scheme \<Rightarrow> (string \<times> string) list" where
  "column_descriptions self = map (\<lambda>(k, v). (k, ColumnInfo.description v)) (columns self)"

definition same_persisted_description ::
  "'a ParsedNode_scheme \<Rightarrow> 'b ParsedNode_scheme \<Rightarrow> bool" where
  "same_persisted_description self other =
     (if persist_relation_docs self \<and> ParsedNode.description self \<noteq> ParsedNode.description other
      then False
      else if persist_column_docs self
              \<and> \<not> dict_eq (column_descriptions self) (column_descriptions other)
      then False
      else True)"

definition same_body :: "'a ParsedNode_scheme \<Rightarrow> 'b ParsedNode_scheme \<Rightarrow> bool" where
  "same_body self other = (raw_code self = raw_code other)"

fun same_database_representation_keys :: "string list \<Rightarrow> pydict \<Rightarrow> pydict \<Rightarrow> bool" where
  "same_database_representation_keys [] mine others = True"
| "same_database_representation_keys (key # keys) mine others =
     (if dict_get mine key \<noteq> dict_get others key then False
      else same_database_representation_keys keys mine others)"

definition same_database_representation ::
  "'a ParsedNode_scheme \<Rightarrow> 'b ParsedNode_scheme \<Rightarrow> bool" where
  "same_database_representation self other =
     same_database_representation_keys [''database'', ''schema'', ''alias'']
       (unrendered_config self) (unrendered_config other)"

definition same_config :: "'a ParsedNode_scheme \<Rightarrow> 'b ParsedNode_scheme \<Rightarrow> bool" where
  "same_config self old =
     config_same_contents (unrendered_config self) (unrendered_config old)"

text \<open>\<^verbatim>\<open>ParsedNode.same_contents\<close>, inherited by the compiled node classes.\<close>

definition same_contents :: "'a ParsedNode_scheme \<Rightarrow> 'b ParsedNode_scheme option \<Rightarrow> bool" where
  "same_contents self old_opt =
     (case old_opt of
        None \<Rightarrow> False
      | Some old \<Rightarrow>
          same_body self old
          \<and> same_config self old
          \<and> same_persisted_description self old
          \<and> same_fqn self old
          \<and> same_database_representation self old
          \<and> True)"

text \<open>\<^verbatim>\<open>GenericTestNode.same_contents\<close> overrides it.\<close>

definition GenericTestNode_same_contents ::
  "'a ParsedNode_scheme \<Rightarrow> 'b ParsedNode_scheme option \<Rightarrow> bool" where
  "GenericTestNode_same_contents self other_opt =
     (case other_opt of
        None \<Rightarrow> False
      | Some other \<Rightarrow> same_config self other \<and> same_fqn self other \<and> True)"

text \<open>
  Sources, exposures and metrics. The unparsed helper classes they hold (quoting,
  freshness, external table, owner, filters, window) are kept in serialised form.
\<close>

record MacroDependsOn =
  macros :: "string list"

record DependsOn = MacroDependsOn +
  nodes :: "string list"

record SourceDefinition = GraphNode +
  database :: "string option"
  schema :: string
  identifier_name :: string
  quoting :: json
  loaded_at_field :: "string option"
  freshness :: json
  external :: json
  unrendered_config :: pydict

definition SourceDefinition_same_database_representation ::
  "SourceDefinition \<Rightarrow> SourceDefinition \<Rightarrow> bool" where
  "SourceDefinition_same_database_representation self other =
     (database self = database other
      \<and> schema self = schema other
      \<and> identifier_name self = identifier_name other
      \<and> True)"

definition same_quoting :: "SourceDefinition \<Rightarrow> SourceDefinition \<Rightarrow> bool" where
  "same_quoting self other = (quoting self = quoting other)"

definition same_freshness :: "SourceDefinition \<Rightarrow> SourceDefinition \<Rightarrow> bool" where
  "same_freshness self other =
     (freshness self = freshness other
      \<and> loaded_at_field self = loaded_at_field other
      \<and> True)"

definition same_external :: "SourceDefinition \<Rightarrow> SourceDefinition \<Rightarrow> bool" where
  "same_external self other = (external self = external other)"

definition SourceDefinition_same_config :: "SourceDefinition \<Rightarrow> SourceDefinition \<Rightarrow> bool" where
  "SourceDefinition_same_config self old =
     config_same_contents (SourceDefinition.unrendered_config self)
       (SourceDefinition.unrendered_config old)"

definition SourceDefinition_same_contents ::
  "SourceDefinition \<Rightarrow> SourceDefinition option \<Rightarrow> bool" where
  "SourceDefinition_same_contents self old_opt =
     (case old_opt of
        None \<Rightarrow> True
      | Some old \<Rightarrow>
          SourceDefinition_same_database_representation self old
          \<and> same_fqn self old
          \<and> SourceDefinition_same_config self old
          \<and> same_quoting self old
          \<and> same_freshness self old
          \<and> same_external self old
          \<and> True)"

record Exposure = GraphNode +
  type :: json
  owner :: json
  description :: string
  label :: "string option"
  maturity :: "string option"
  url :: "string option"
  depends_on :: DependsOn
  unrendered_config :: pydict

definition same_depends_on :: "Exposure \<Rightarrow> Exposure \<Rightarrow> bool" where
  "same_depends_on self old = (set (nodes (depends_on self)) = set (nodes (depends_on old)))"

definition Exposure_same_description :: "Exposure \<Rightarrow> Exposure \<Rightarrow> bool" where
  "Exposure_same_description self old = (Exposure.description self = Exposure.description old)"

definition Exposure_same_label :: "Exposure \<Rightarrow> Exposure \<Rightarrow> bool" where
  "Exposure_same_label self old = (Exposure.label self = Exposure.label old)"

definition same_maturity :: "Exposure \<Rightarrow> Exposure \<Rightarrow> bool" where
  "same_maturity self old = (maturity self = maturity old)"

definition same_owner :: "Exposure \<Rightarrow> Exposure \<Rightarrow> bool" where
  "same_owner self old = (owner self = owner old)"

definition same_exposure_type :: "Exposure \<Rightarrow> Exposure \<Rightarrow> bool" where
  "same_exposure_type self old = (type self = type old)"

definition same_url :: "Exposure \<Rightarrow> Exposure \<Rightarrow> bool" where
  "same_url self old = (url self = url old)"

definition Exposure_same_config :: "Exposure \<Rightarrow> Exposure \<Rightarrow> bool" where
  "Exposure_same_config self old =
     config_same_contents (Exposure.unrendered_config self) (Exposure.unrendered_config old)"

definition Exposure_same_contents :: "Exposure \<Rightarrow> Exposure option \<Rightarrow> bool" where
  "Exposure_same_contents self old_opt =
     (case old_opt of
        None \<Rightarrow> True
      | Some old \<Rightarrow>
          same_fqn self old
          \<and> same_exposure_type self old
          \<and> same_owner self old
          \<and> same_maturity self old
          \<and> same_url self old
          \<and> Exposure_same_description self old
          \<and> Exposure_same_label self old
          \<and> same_depends_on self old
          \<and> Exposure_same_config self old
          \<and> True)"

record Metric = GraphNode +
  description :: string
  label :: string
  calculation_method :: string
  expression :: string
  filters :: "json list"
  time_grains :: "string list"
  dimensions :: "string list"
  timestamp :: "string option"
  window :: json
  model :: "string option"
  unrendered_config :: pydict

definition same_model :: "Metric \<Rightarrow> Metric \<Rightarrow> bool" where
  "same_model self old = (model self = model old)"

definition same_window :: "Metric \<Rightarrow> Metric \<Rightarrow> bool" where
  "same_window self old = (window self = window old)"

definition same_dimensions :: "Metric \<Rightarrow> Metric \<Rightarrow> bool" where
  "same_dimensions self old = (dimensions self = dimensions old)"

definition same_filters :: "Metric \<Rightarrow> Metric \<Rightarrow> bool" where
  "same_filters self old = (filters self = filters old)"

definition Metric_same_description :: "Metric \<Rightarrow> Metric \<Rightarrow> bool" where
  "Metric_same_description self old = (Metric.description self = Metric.description old)"

definition Metric_same_label :: "Metric \<Rightarrow> Metric \<Rightarrow> bool" where
  "Metric_same_label self old = (Metric.label self = Metric.label old)"

definition same_calculation_method :: "Metric \<Rightarrow> Metric \<Rightarrow> bool" where
  "same_calculation_method self old = (calculation_method self = calculation_method old)"

definition same_expression :: "Metric \<Rightarrow> Metric \<Rightarrow> bool" where
  "same_expression self old = (expression self = expression old)"

definition same_timestamp :: "Metric \<Rightarrow> Metric \<Rightarrow> bool" where
  "same_timestamp self old = (timestamp self = timestamp old)"

definition same_time_grains :: "Metric \<Rightarrow> Metric \<Rightarrow> bool" where
  "same_time_grains self old = (time_grains self = time_grains old)"

definition Metric_same_config :: "Metric \<Rightarrow> Metric \<Rightarrow> bool" where
  "Metric_same_config self old =
     config_same_contents (Metric.unrendered_config self) (Metric.unrendered_config old)"

definition Metric_same_contents :: "Metric \<Rightarrow> Metric option \<Rightarrow> bool" where
  "Metric_same_contents self old_opt =
     (case old_opt of
        None \<Rightarrow> True
      | Some old \<Rightarrow>
          same_model self old
          \<and> same_window self old
          \<and> same_dimensions self old
          \<and> same_filters self old
          \<and> Metric_same_description self old
          \<and> Metric_same_label self old
          \<and> same_calculation_method self old
          \<and> same_expression self old
          \<and> same_timestamp self old
          \<and> same_time_grains self old
          \<and> Metric_same_config self old
          \<and> True)"

text \<open>Two concrete generic test nodes, differing in their raw body only, and a model node.\<close>

definition example_config :: NodeConfig where
  "example_config =
     \<lparr> persist_docs = Some [(''relation'', JBool True), (''columns'', JBool True)],
       pre_hook = [], post_hook = [] \<rparr>"

definition example_node :: "string \<Rightarrow> ParsedNode" where
  "example_node body =
     \<lparr> BaseNode.name = ''not_null_orders_id'',
       package_name = ''shop'',
       unique_id = ''test.shop.not_null_orders_id'',
       fqn = [''shop'', ''not_null_orders_id''],
       ParsedNode.checksum = \<lparr> FileHash.name = ''sha256'', FileHash.checksum = ''0a1b'' \<rparr>,
       config = example_config,
       ParsedNode.description = ''ids are present'',
       columns = [(''id'', \<lparr> ColumnInfo.name = ''id'', ColumnInfo.description = ''key'' \<rparr>)],
       ParsedNode.unrendered_config = [(''severity'', JStr ''warn''), (''schema'', JStr ''audit'')],
       raw_code = body \<rparr>"

section \<open>Events and the warn-or-raise policy (dbt/events)\<close>

datatype EventLevel = DEBUG | TEST | INFO | WARN | ERROR

text \<open>The events used here, with their fields; all of them derive from \<^verbatim>\<open>WarnLevel\<close>.\<close>

datatype event =
    SeedIncreased string string
  | SeedExceedsLimitSamePath string string
  | SeedExceedsLimitAndPathChanged string string
  | SeedExceedsLimitChecksumChanged string string string
  | UnusedResourceConfigPath "string list"

fun level_tag :: "event \<Rightarrow> EventLevel" where
  "level_tag e = WARN"

text \<open>\<^verbatim>\<open>type(event).__name__\<close>\<close>

fun event_name :: "event \<Rightarrow> string" where
  "event_name (SeedIncreased p n) = ''SeedIncreased''"
| "event_name (SeedExceedsLimitSamePath p n) = ''SeedExceedsLimitSamePath''"
| "event_name (SeedExceedsLimitAndPathChanged p n) = ''SeedExceedsLimitAndPathChanged''"
| "event_name (SeedExceedsLimitChecksumChanged p n c) = ''SeedExceedsLimitChecksumChanged''"
| "event_name (UnusedResourceConfigPath ps) = ''UnusedResourceConfigPath''"

text \<open>
  The exceptions raised by the modelled code. \<^verbatim>\<open>EventCompilationError\<close> is built from
  \<^verbatim>\<open>event.message()\<close>; it carries the event here.
\<close>

datatype error =
    ParsingError string
  | EventCompilationError event
  | UninstalledPackagesFoundError nat nat string
  | NonUniquePackageNameError string
  | DbtProjectError string
  | DbtProfileError string
  | DbtRuntimeError string
  | IncompatibleSchemaError string json
  | ValidationError json string string
  | ValueError string
  | IndexError
  | KeyError string
  | TypeError
  | AttributeError
  | OSError

text \<open>
  The two global flags read by \<^verbatim>\<open>warn_or_error\<close>: \<^verbatim>\<open>WARN_ERROR\<close>, and
  \<^verbatim>\<open>WARN_ERROR_OPTIONS\<close> through the \<^verbatim>\<open>includes\<close> test of its parsed form
  (dbt/helper_types.py is not among the sources), kept as the list of included names.
\<close>

record flags =
  WARN_ERROR :: bool
  WARN_ERROR_OPTIONS :: "string list"

definition warn_error_options_includes :: "flags \<Rightarrow> string \<Rightarrow> bool" where
  "warn_error_options_includes fl n = (n \<in> set (WARN_ERROR_OPTIONS fl))"

text \<open>\<^verbatim>\<open>fire_event\<close> appends to the event history, which is passed along explicitly.\<close>

definition fire_event :: "event \<Rightarrow> event list \<Rightarrow> event list" where
  "fire_event e history = history @ [e]"

definition warn_or_error :: "flags \<Rightarrow> event \<Rightarrow> event list \<Rightarrow> error + event list" where
  "warn_or_error fl e history =
     (if WARN_ERROR fl \<or> warn_error_options_includes fl (event_name e)
      then Inl (EventCompilationError e)
      else Inr (fire_event e history))"

section \<open>Seed nodes\<close>

record SeedNode = ParsedNode +
  root_path :: "string option"
  depends_on :: MacroDependsOn

definition same_seeds ::
  "flags \<Rightarrow> SeedNode \<Rightarrow> SeedNode \<Rightarrow> event list \<Rightarrow> error + (event list \<times> bool)" where
  "same_seeds fl self other history =
     (let result = (ParsedNode.checksum self = ParsedNode.checksum other) in
      if FileHash.name (ParsedNode.checksum self) = ''path'' then
        (case
           (if FileHash.name (ParsedNode.checksum other) \<noteq> ''path'' then
              warn_or_error fl
                (SeedIncreased (package_name self) (BaseNode.name self)) history
            else if result then
              warn_or_error fl
                (SeedExceedsLimitSamePath (package_name self) (BaseNode.name self)) history
            else if \<not> result then
              warn_or_error fl
                (SeedExceedsLimitAndPathChanged (package_name self) (BaseNode.name self)) history
            else
              warn_or_error fl
                (SeedExceedsLimitChecksumChanged (package_name self) (BaseNode.name self)
                   (FileHash.name (ParsedNode.checksum other))) history)
         of
           Inl err \<Rightarrow> Inl err
         | Inr history' \<Rightarrow> Inr (history', result))
      else Inr (history, result))"

definition SeedNode_same_body ::
  "flags \<Rightarrow> SeedNode \<Rightarrow> SeedNode \<Rightarrow> event list \<Rightarrow> error + (event list \<times> bool)" where
  "SeedNode_same_body fl self other history = same_seeds fl self other history"

definition newline :: char where
  "newline = CHR 0x0A"

definition dquote :: char where
  "dquote = CHR 0x22"

definition squote :: char where
  "squote = CHR 0x27"

definition pre_hook_line :: "Hook \<Rightarrow> string" where
  "pre_hook_line hook = ''- pre_hook: '' @ [dquote] @ sql hook @ [dquote]"

definition post_hook_line :: "Hook \<Rightarrow> string" where
  "post_hook_line hook = ''- post_hook: '' @ [dquote] @ sql hook @ [dquote]"

definition implicit_dependency_message :: "string \<Rightarrow> string \<Rightarrow> string" where
  "implicit_dependency_message uid hook_list =
     [newline]
     @ ''Seeds cannot depend on other nodes. dbt detected a seed with a pre- or post-hook''
     @ [newline]
     @ ''that calls '' @ [squote] @ ''ref'' @ [squote] @ '', '' @ [squote] @ ''source''
     @ [squote] @ '', or '' @ [squote] @ ''metric'' @ [squote]
     @ '', either directly or indirectly via other macros.''
     @ [newline, newline]
     @ ''Error raised for '' @ [squote] @ uid @ [squote]
     @ '', which has these hooks defined: '' @ [newline] @ hook_list
     @ [newline] @ ''        ''"

definition disallow_implicit_dependencies :: "SeedNode \<Rightarrow> error + unit" where
  "disallow_implicit_dependencies self =
     (let hooks = map pre_hook_line (pre_hook (config self))
                  @ map post_hook_line (post_hook (config self));
          hook_list = join [newline] hooks;
          message = implicit_dependency_message (unique_id self) hook_list
      in Inl (ParsingError message))"

definition SeedNode_refs :: "SeedNode \<Rightarrow> error + unit" where
  "SeedNode_refs self = disallow_implicit_dependencies self"

definition SeedNode_sources :: "SeedNode \<Rightarrow> error + unit" where
  "SeedNode_sources self = disallow_implicit_dependencies self"

definition SeedNode_metrics :: "SeedNode \<Rightarrow> error + unit" where
  "SeedNode_metrics self = disallow_implicit_dependencies self"

definition SeedNode_depends_on_nodes :: "SeedNode \<Rightarrow> string list" where
  "SeedNode_depends_on_nodes self = []"

definition SeedNode_depends_on_macros :: "SeedNode \<Rightarrow> string list" where
  "SeedNode_depends_on_macros self = macros (SeedNode.depends_on self)"

text \<open>A concrete seed with hooks, and seeds with a given checksum.\<close>

definition example_seed :: "FileHash \<Rightarrow> SeedNode" where
  "example_seed h =
     \<lparr> BaseNode.name = ''countries'',
       package_name = ''shop'',
       unique_id = ''seed.shop.countries'',
       fqn = [''shop'', ''countries''],
       ParsedNode.checksum = h,
       config = \<lparr> persist_docs = Some [],
                  pre_hook = [\<lparr> sql = ''select * from {{ ref(''  @ [squote] @ ''orders'' @ [squote] @ '') }}'' \<rparr>],
                  post_hook = [\<lparr> sql = ''analyze countries'' \<rparr>] \<rparr>,
       ParsedNode.description = [],
       columns = [],
       ParsedNode.unrendered_config = [],
       raw_code = [],
       root_path = Some ''/project'',
       SeedNode.depends_on = \<lparr> macros = [] \<rparr> \<rparr>"

definition path_hash :: "string \<Rightarrow> FileHash" where
  "path_hash p = \<lparr> FileHash.name = ''path'', FileHash.checksum = p \<rparr>"

definition sha_hash :: "string \<Rightarrow> FileHash" where
  "sha_hash p = \<lparr> FileHash.name = ''sha256'', FileHash.checksum = p \<rparr>"

section \<open>Runtime configuration (dbt/config/runtime.py)\<close>

text \<open>
  The members of the \<^verbatim>\<open>ComponentName\<close> string enumeration (dbt/contracts/relation.py is
  not among the sources), in declaration order, with their string values.
\<close>

datatype ComponentName = Database | Schema | Identifier

fun component_str :: "ComponentName \<Rightarrow> string" where
  "component_str Database = ''database''"
| "component_str Schema = ''schema''"
| "component_str Identifier = ''identifier''"

definition all_components :: "ComponentName list" where
  "all_components = [Database, Schema, Identifier]"

text \<open>
  \<^verbatim>\<open>_project_quoting_dict\<close>. The argument \<open>src\<close> is the project quoting dict after
  \<^verbatim>\<open>profile.credentials.translate_aliases\<close>.
\<close>

fun project_quoting_loop ::
  "ComponentName list \<Rightarrow> pydict \<Rightarrow> (ComponentName \<times> bool) list \<Rightarrow> (ComponentName \<times> bool) list" where
  "project_quoting_loop [] src result = result"
| "project_quoting_loop (key # keys) src result =
     project_quoting_loop keys src
       (case map_of src (component_str key) of
          Some (JBool value) \<Rightarrow> AList.update key value result
        | _ \<Rightarrow> result)"

definition project_quoting_dict :: "pydict \<Rightarrow> (ComponentName \<times> bool) list" where
  "project_quoting_dict src = project_quoting_loop all_components src []"

text \<open>
  Modelled from the spec: the quote policy of a relation class and its \<^verbatim>\<open>replace_dict\<close>
  (dbt/contracts/relation.py is not among the sources): three booleans, overridden field
  by field by the entries of the given dict.
\<close>

record Policy =
  database :: bool
  schema :: bool
  identifier_part :: bool

fun replace_field :: "ComponentName \<Rightarrow> bool \<Rightarrow> Policy \<Rightarrow> Policy" where
  "replace_field Database v p = p\<lparr> Policy.database := v \<rparr>"
| "replace_field Schema v p = p\<lparr> Policy.schema := v \<rparr>"
| "replace_field Identifier v p = p\<lparr> identifier_part := v \<rparr>"

fun replace_dict :: "Policy \<Rightarrow> (ComponentName \<times> bool) list \<Rightarrow> Policy" where
  "replace_dict p [] = p"
| "replace_dict p ((k, v) # dct) = replace_dict (replace_field k v p) dct"

definition Policy_to_dict :: "Policy \<Rightarrow> pydict" where
  "Policy_to_dict p =
     [(''database'', JBool (Policy.database p)),
      (''schema'', JBool (Policy.schema p)),
      (''identifier'', JBool (identifier_part p))]"

fun get_part :: "Policy \<Rightarrow> ComponentName \<Rightarrow> bool" where
  "get_part p Database = Policy.database p"
| "get_part p Schema = Policy.schema p"
| "get_part p Identifier = identifier_part p"

text \<open>
  The \<^verbatim>\<open>quoting\<close> computed by \<^verbatim>\<open>RuntimeConfig.from_parts\<close> from the adapter's default
  quote policy and the translated project quoting dict.
\<close>

definition from_parts_quoting :: "Policy \<Rightarrow> pydict \<Rightarrow> pydict" where
  "from_parts_quoting default_quote_policy src =
     Policy_to_dict (replace_dict default_quote_policy (project_quoting_dict src))"

text \<open>
  \<^verbatim>\<open>_get_config_paths\<close> and \<^verbatim>\<open>_get_v2_config_paths\<close>. The mutable set \<open>paths\<close> is a
  list without repetitions, in some order; a path is a list of strings.
\<close>

function (sequential) get_config_paths ::
    "pydict \<Rightarrow> string list \<Rightarrow> string list list \<Rightarrow> string list list"
  and get_v2_config_paths ::
    "pydict \<Rightarrow> string list \<Rightarrow> string list list \<Rightarrow> string list list" where
  "get_config_paths [] path paths = paths"
| "get_config_paths ((key, JDict d) # cfg) path paths =
     (if \<not> startswith key ''+''
      then get_config_paths cfg path (get_v2_config_paths d (path @ [key]) paths)
      else get_config_paths cfg path (List.insert path paths))"
| "get_config_paths ((key, value) # cfg) path paths =
     get_config_paths cfg path (List.insert path paths)"
| "get_v2_config_paths [] path paths = paths"
| "get_v2_config_paths ((key, JDict d) # cfg) path paths =
     (if \<not> startswith key ''+''
      then get_v2_config_paths cfg path (get_config_paths d (path @ [key]) paths)
      else get_v2_config_paths cfg path (List.insert path paths))"
| "get_v2_config_paths ((key, value) # cfg) path paths =
     get_v2_config_paths cfg path (List.insert path paths)"
  by pat_completeness auto
termination
  by (relation "measure (\<lambda>x. case x of
          Inl (c, p, ps) \<Rightarrow> size_list (size_prod (\<lambda>_. 0) size) c
        | Inr (c, p, ps) \<Rightarrow> size_list (size_prod (\<lambda>_. 0) size) c)")
     auto

text \<open>
  The fields of \<^verbatim>\<open>RuntimeConfig\<close> read below. \<open>packages\<close> is the list
  \<^verbatim>\<open>self.packages.packages\<close>; \<open>dependencies\<close> is the cache, \<open>None\<close> until loaded.
\<close>

datatype RuntimeConfig = RuntimeConfig
  (project_name: string)
  (project_root: string)
  (packages_install_path: string)
  (packages: "json list")
  (credentials_type: string)
  (models: pydict)
  (seeds: pydict)
  (snapshots: pydict)
  (sources: pydict)
  (tests: pydict)
  (metrics: pydict)
  (exposures: pydict)
  (dependencies: "(string \<times> RuntimeConfig) list option")

fun set_dependencies ::
  "RuntimeConfig \<Rightarrow> (string \<times> RuntimeConfig) list option \<Rightarrow> RuntimeConfig" where
  "set_dependencies (RuntimeConfig n r i p c mo se sn so te me ex d) d' =
     RuntimeConfig n r i p c mo se sn so te me ex d'"

definition get_resource_config_paths :: "RuntimeConfig \<Rightarrow> (string \<times> string list list) list" where
  "get_resource_config_paths self =
     [(''models'', get_config_paths (models self) [] []),
      (''seeds'', get_config_paths (seeds self) [] []),
      (''snapshots'', get_config_paths (snapshots self) [] []),
      (''sources'', get_config_paths (sources self) [] []),
      (''tests'', get_config_paths (tests self) [] []),
      (''metrics'', get_config_paths (metrics self) [] []),
      (''exposures'', get_config_paths (exposures self) [] [])]"

text \<open>\<^verbatim>\<open>_is_config_used\<close>\<close>

fun is_config_used_loop :: "string list \<Rightarrow> string list list \<Rightarrow> bool" where
  "is_config_used_loop path [] = False"
| "is_config_used_loop path (x # fqns) =
     (if length path \<le> length x \<and> take (length path) x = path then True
      else is_config_used_loop path fqns)"

definition is_config_used :: "string list \<Rightarrow> string list list \<Rightarrow> bool" where
  "is_config_used path fqns = (if fqns \<noteq> [] then is_config_used_loop path fqns else False)"

text \<open>
  \<^verbatim>\<open>warn_for_unused_resource_config_paths\<close>: the inner loop over the config paths of one
  resource type, the outer loop over the resource types, and the report.
\<close>

fun unused_of_type ::
  "string \<Rightarrow> string list list \<Rightarrow> string list list \<Rightarrow> string list \<Rightarrow> string list" where
  "unused_of_type resource_type [] fqns unused = unused"
| "unused_of_type resource_type (config_path # config_paths) fqns unused =
     unused_of_type resource_type config_paths fqns
       (if \<not> is_config_used config_path fqns
        then unused @ [join ''.'' (resource_type # config_path)]
        else unused)"

fun unused_resource_config_paths ::
  "(string \<times> string list list) list \<Rightarrow> (string \<times> string list list) list
     \<Rightarrow> string list list \<Rightarrow> string list \<Rightarrow> string list" where
  "unused_resource_config_paths [] resource_fqns disabled_fqns unused = unused"
| "unused_resource_config_paths ((resource_type, config_paths) # rest) resource_fqns
       disabled_fqns unused =
     (let used_fqns = (case map_of resource_fqns resource_type of None \<Rightarrow> [] | Some u \<Rightarrow> u);
          fqns = used_fqns @ disabled_fqns
      in unused_resource_config_paths rest resource_fqns disabled_fqns
           (unused_of_type resource_type config_paths fqns unused))"

definition warn_for_unused_resource_config_paths ::
  "flags \<Rightarrow> RuntimeConfig \<Rightarrow> (string \<times> string list list) list \<Rightarrow> string list list
     \<Rightarrow> event list \<Rightarrow> error + event list" where
  "warn_for_unused_resource_config_paths fl self resource_fqns disabled history =
     (let disabled_fqns = disabled;
          resource_config_paths = get_resource_config_paths self;
          unused = unused_resource_config_paths resource_config_paths resource_fqns
                     disabled_fqns []
      in if length unused = 0 then Inr history
         else warn_or_error fl (UnusedResourceConfigPath unused) history)"

text \<open>
  What \<^verbatim>\<open>load_dependencies\<close> reads from outside: the adapter's include paths, the
  entries of the directory \<^verbatim>\<open>Path(project_root) / packages_install_path\<close> (\<open>None\<close> when
  it does not exist; when it exists it is a directory), and the outcome of
  \<^verbatim>\<open>new_project\<close> on a package root (a project, or one of the two errors it documents).
\<close>

record dir_entry =
  entry_path :: string
  entry_name :: string
  is_dir :: bool

datatype new_project_result =
    Loaded RuntimeConfig
  | RaisesProjectError string
  | RaisesProfileError string

record environment =
  get_include_paths :: "string \<Rightarrow> string list"
  iterdir :: "string \<Rightarrow> string \<Rightarrow> dir_entry list option"
  new_project :: "string \<Rightarrow> new_project_result"

definition get_project_directories :: "environment \<Rightarrow> RuntimeConfig \<Rightarrow> string list" where
  "get_project_directories env self =
     (case iterdir env (project_root self) (packages_install_path self) of
        None \<Rightarrow> []
      | Some entries \<Rightarrow>
          map entry_path
            (filter (\<lambda>e. is_dir e \<and> \<not> startswith (entry_name e) ''__'') entries))"

text \<open>
  The loop of \<^verbatim>\<open>load_dependencies\<close> over the generator \<^verbatim>\<open>load_projects\<close>: each project
  is loaded, then checked against the names collected so far.
\<close>

fun load_projects ::
  "environment \<Rightarrow> string list \<Rightarrow> (string \<times> RuntimeConfig) list
     \<Rightarrow> error + (string \<times> RuntimeConfig) list" where
  "load_projects env [] all_projects = Inr all_projects"
| "load_projects env (p # paths) all_projects =
     (case new_project env p of
        RaisesProjectError e \<Rightarrow> Inl (DbtProjectError (''Failed to read package: '' @ e))
      | RaisesProfileError e \<Rightarrow> Inl (DbtProfileError e)
      | Loaded project \<Rightarrow>
          if dict_has all_projects (project_name project)
          then Inl (NonUniquePackageNameError (project_name project))
          else load_projects env paths (all_projects @ [(project_name project, project)]))"

definition load_dependencies ::
  "environment \<Rightarrow> RuntimeConfig \<Rightarrow> bool
     \<Rightarrow> error + (RuntimeConfig \<times> (string \<times> RuntimeConfig) list)" where
  "load_dependencies env self base_only =
     (case dependencies self of
        Some deps \<Rightarrow> Inr (self, deps)
      | None \<Rightarrow>
          let all_projects = [(project_name self, self)];
              internal_packages = get_include_paths env (credentials_type self);
              count_packages_specified = length (packages self);
              count_packages_installed = length (get_project_directories env self)
          in if \<not> base_only \<and> count_packages_specified > count_packages_installed
             then Inl (UninstalledPackagesFoundError count_packages_specified
                         count_packages_installed (packages_install_path self))
             else
               (case load_projects env
                       (if base_only then internal_packages
                        else internal_packages @ get_project_directories env self)
                       all_projects of
                  Inl err \<Rightarrow> Inl err
                | Inr loaded \<Rightarrow> Inr (set_dependencies self (Some loaded), loaded)))"

definition example_policy :: Policy where
  "example_policy = \<lparr> Policy.database = True, Policy.schema = True, identifier_part = True \<rparr>"

text \<open>
  A project whose model configuration declares the paths \<^verbatim>\<open>a.b\<close> and \<^verbatim>\<open>a.c.d\<close>, with
  three declared packages, and a packages directory holding two package directories, a
  directory whose name starts with two underscores and a plain file.
\<close>

definition example_project :: RuntimeConfig where
  "example_project =
     RuntimeConfig ''shop'' ''/project'' ''dbt_packages''
       [JStr ''dbt_utils'', JStr ''codegen'', JStr ''audit_helper'']
       ''duckdb''
       [(''a'', JDict [(''b'', JDict [(''+enabled'', JBool True)]),
                       (''c'', JDict [(''d'', JDict [(''+materialized'', JStr ''table'')])])])]
       [] [] [] [] [] []
       None"

definition example_environment :: environment where
  "example_environment =
     \<lparr> get_include_paths = (\<lambda>t. [''/adapters/include/global_project'']),
       iterdir = (\<lambda>root install.
          if root = ''/project'' \<and> install = ''dbt_packages''
          then Some [\<lparr> entry_path = ''/project/dbt_packages/dbt_utils'',
                         entry_name = ''dbt_utils'', is_dir = True \<rparr>,
                     \<lparr> entry_path = ''/project/dbt_packages/__pycache__'',
                         entry_name = ''__pycache__'', is_dir = True \<rparr>,
                     \<lparr> entry_path = ''/project/dbt_packages/README.md'',
                         entry_name = ''README.md'', is_dir = False \<rparr>,
                     \<lparr> entry_path = ''/project/dbt_packages/codegen'',
                         entry_name = ''codegen'', is_dir = True \<rparr>]
          else None),
       new_project = (\<lambda>p. RaisesProjectError ''no dbt_project.yml found'') \<rparr>"

section \<open>Artifact versioning (dbt/contracts/util.py)\<close>

text \<open>
  The manifest is the parsed JSON document. The functions below mutate it in place; here
  they return the new value, or the exception. A value that is not a dict fails where the
  Python operation applied to it fails.
\<close>

definition then_do :: "error + 'a \<Rightarrow> ('a \<Rightarrow> error + 'b) \<Rightarrow> error + 'b" where
  "then_do r f = (case r of Inl e \<Rightarrow> Inl e | Inr x \<Rightarrow> f x)"

text \<open>\<^verbatim>\<open>d[new] = d.pop(old)\<close>\<close>

definition move_key :: "string \<Rightarrow> string \<Rightarrow> pydict \<Rightarrow> pydict" where
  "move_key old new d = dict_set new (dict_get d old) (dict_del old d)"

definition rename_sql_attr :: "json \<Rightarrow> error + pydict" where
  "rename_sql_attr node_content =
     (case node_content of
        JDict d \<Rightarrow>
          (let d1 = (if dict_has d ''raw_sql'' then move_key ''raw_sql'' ''raw_code'' d else d);
               d2 = (if dict_has d1 ''compiled_sql''
                     then move_key ''compiled_sql'' ''compiled_code'' d1 else d1)
           in Inr (dict_set ''language'' (JStr ''sql'') d2))
      | JStr s \<Rightarrow>
          (if sublist ''raw_sql'' s \<or> sublist ''compiled_sql'' s then Inl AttributeError
           else Inl TypeError)
      | _ \<Rightarrow> Inl TypeError)"

definition upgrade_node_content :: "json \<Rightarrow> error + pydict" where
  "upgrade_node_content node_content =
     then_do (rename_sql_attr node_content) (\<lambda>d.
       case map_of d ''resource_type'' of
         None \<Rightarrow> Inl (KeyError ''resource_type'')
       | Some resource_type \<Rightarrow>
           if resource_type \<noteq> JStr ''seed'' \<and> dict_has d ''root_path''
           then Inr (dict_del ''root_path'' d)
           else Inr d)"

text \<open>\<^verbatim>\<open>node_content.get("depends_on", {}).pop("nodes", None)\<close>\<close>

definition pop_depends_on_nodes :: "pydict \<Rightarrow> error + pydict" where
  "pop_depends_on_nodes d =
     (case map_of d ''depends_on'' of
        None \<Rightarrow> Inr d
      | Some (JDict dd) \<Rightarrow> Inr (dict_set ''depends_on'' (JDict (dict_del ''nodes'' dd)) d)
      | Some (JList xs) \<Rightarrow> Inl TypeError
      | Some _ \<Rightarrow> Inl AttributeError)"

definition seed_attr_names :: "string list" where
  "seed_attr_names =
     [''language'', ''refs'', ''sources'', ''metrics'', ''compiled_path'', ''compiled'',
      ''compiled_code'', ''extra_ctes_injected'', ''extra_ctes'', ''relation_name'']"

fun upgrade_seed_loop :: "string list \<Rightarrow> pydict \<Rightarrow> error + pydict" where
  "upgrade_seed_loop [] d = Inr d"
| "upgrade_seed_loop (attr_name # attr_names) d =
     then_do (pop_depends_on_nodes (if dict_has d attr_name then dict_del attr_name d else d))
       (upgrade_seed_loop attr_names)"

definition upgrade_seed_content :: "pydict \<Rightarrow> error + pydict" where
  "upgrade_seed_content d = upgrade_seed_loop seed_attr_names d"

text \<open>The body of the loops over the nodes and over the disabled nodes.\<close>

definition upgrade_node_entry :: "json \<Rightarrow> error + json" where
  "upgrade_node_entry node_content =
     then_do (upgrade_node_content node_content) (\<lambda>d.
       case map_of d ''resource_type'' of
         None \<Rightarrow> Inl (KeyError ''resource_type'')
       | Some resource_type \<Rightarrow>
           if resource_type = JStr ''seed''
           then then_do (upgrade_seed_content d) (\<lambda>d'. Inr (JDict d'))
           else Inr (JDict d))"

text \<open>
  \<^verbatim>\<open>rename_metric_attr\<close>, called without \<^verbatim>\<open>raise_deprecation_warning\<close>, so that no
  deprecation is issued.
\<close>

definition rename_metric_attr :: "json \<Rightarrow> error + pydict" where
  "rename_metric_attr data =
     (case data of
        JDict d \<Rightarrow>
          (case map_of d ''name'' of
             None \<Rightarrow> Inl (KeyError ''name'')
           | Some metric_name \<Rightarrow>
               then_do
                 (if dict_has d ''sql'' then
                    (if dict_has d ''expression''
                     then Inl (ValidationError metric_name ''sql'' ''expression'')
                     else Inr (move_key ''sql'' ''expression'' d))
                  else Inr d)
                 (\<lambda>d1.
                    then_do
                      (if dict_has d1 ''type'' then
                         (if dict_has d1 ''calculation_method''
                          then Inl (ValidationError metric_name ''type'' ''calculation_method'')
                          else Inr (move_key ''type'' ''calculation_method'' d1))
                       else Inr d1)
                      (\<lambda>d2.
                         if dict_get d2 ''calculation_method'' = JStr ''expression''
                         then Inr (dict_set ''calculation_method'' (JStr ''derived'') d2)
                         else Inr d2)))
      | _ \<Rightarrow> Inl TypeError)"

definition upgrade_metric_entry :: "json \<Rightarrow> error + json" where
  "upgrade_metric_entry metric_content =
     then_do (rename_metric_attr metric_content) (\<lambda>d.
       Inr (JDict (if dict_has d ''root_path'' then dict_del ''root_path'' d else d)))"

text \<open>\<^verbatim>\<open>if "root_path" in content: del content["root_path"]\<close>\<close>

definition del_root_path :: "json \<Rightarrow> error + json" where
  "del_root_path content =
     (case content of
        JDict d \<Rightarrow> Inr (JDict (if dict_has d ''root_path'' then dict_del ''root_path'' d else d))
      | JStr s \<Rightarrow> if sublist ''root_path'' s then Inl TypeError else Inr content
      | JList xs \<Rightarrow> if JStr ''root_path'' \<in> set xs then Inl TypeError else Inr content
      | _ \<Rightarrow> Inl TypeError)"

definition upgrade_doc_entry :: "json \<Rightarrow> error + json" where
  "upgrade_doc_entry doc_content =
     then_do (del_root_path doc_content) (\<lambda>c.
       case c of
         JDict d \<Rightarrow> Inr (JDict (dict_set ''resource_type'' (JStr ''doc'') d))
       | _ \<Rightarrow> Inl TypeError)"

text \<open>A loop that replaces every element of a list, and every value of a dict.\<close>

fun for_each :: "(json \<Rightarrow> error + json) \<Rightarrow> json list \<Rightarrow> error + json list" where
  "for_each f [] = Inr []"
| "for_each f (x # xs) =
     then_do (f x) (\<lambda>y. then_do (for_each f xs) (\<lambda>ys. Inr (y # ys)))"

fun for_each_value :: "(json \<Rightarrow> error + json) \<Rightarrow> pydict \<Rightarrow> error + pydict" where
  "for_each_value f [] = Inr []"
| "for_each_value f ((k, v) # d) =
     then_do (f v) (\<lambda>v'. then_do (for_each_value f d) (\<lambda>d'. Inr ((k, v') # d')))"

text \<open>
  \<^verbatim>\<open>for node_content in disabled\<close>: a list is walked in place; a dict or a string is
  iterable too (keys, characters), and every element then fails as a node.
\<close>

definition upgrade_disabled_entry :: "json \<Rightarrow> error + json" where
  "upgrade_disabled_entry disabled =
     (case disabled of
        JList xs \<Rightarrow> then_do (for_each upgrade_node_entry xs) (\<lambda>ys. Inr (JList ys))
      | JDict d \<Rightarrow>
          then_do (for_each upgrade_node_entry (map (\<lambda>kv. JStr (fst kv)) d))
            (\<lambda>ys. Inr disabled)
      | JStr s \<Rightarrow>
          then_do (for_each upgrade_node_entry (map (\<lambda>c. JStr [c]) s)) (\<lambda>ys. Inr disabled)
      | _ \<Rightarrow> Inl TypeError)"

text \<open>\<^verbatim>\<open>for content in manifest.get(key, {}).values(): ...\<close>\<close>

definition for_section ::
  "string \<Rightarrow> (json \<Rightarrow> error + json) \<Rightarrow> pydict \<Rightarrow> error + pydict" where
  "for_section key body manifest =
     (case map_of manifest key of
        None \<Rightarrow> Inr manifest
      | Some (JDict d) \<Rightarrow>
          then_do (for_each_value body d) (\<lambda>d'. Inr (dict_set key (JDict d') manifest))
      | Some _ \<Rightarrow> Inl AttributeError)"

definition upgrade_manifest_json :: "json \<Rightarrow> error + json" where
  "upgrade_manifest_json manifest =
     (case manifest of
        JDict m \<Rightarrow>
          then_do (for_section ''nodes'' upgrade_node_entry m) (\<lambda>m.
          then_do (for_section ''disabled'' upgrade_disabled_entry m) (\<lambda>m.
          then_do (for_section ''metrics'' upgrade_metric_entry m) (\<lambda>m.
          then_do (for_section ''exposures'' del_root_path m) (\<lambda>m.
          then_do (for_section ''sources'' del_root_path m) (\<lambda>m.
          then_do (for_section ''macros'' del_root_path m) (\<lambda>m.
          then_do (for_section ''docs'' upgrade_doc_entry m) (\<lambda>m.
          Inr (JDict m))))))))
      | _ \<Rightarrow> Inl AttributeError)"

text \<open>The same sequence of loops as a list of sections, used in the proofs.\<close>

fun run_sections ::
  "(string \<times> (json \<Rightarrow> error + json)) list \<Rightarrow> pydict \<Rightarrow> error + pydict" where
  "run_sections [] m = Inr m"
| "run_sections ((key, body) # sections) m =
     then_do (for_section key body m) (run_sections sections)"

definition manifest_sections :: "(string \<times> (json \<Rightarrow> error + json)) list" where
  "manifest_sections =
     [(''nodes'', upgrade_node_entry),
      (''disabled'', upgrade_disabled_entry),
      (''metrics'', upgrade_metric_entry),
      (''exposures'', del_root_path),
      (''sources'', del_root_path),
      (''macros'', del_root_path),
      (''docs'', upgrade_doc_entry)]"

text \<open>A manifest written by an older version.\<close>

definition old_manifest :: json where
  "old_manifest =
     JDict
      [(''metadata'', JDict [(''dbt_schema_version'',
          JStr ''https://schemas.getdbt.com/dbt/manifest/v6.json'')]),
       (''nodes'', JDict
          [(''model.shop.orders'', JDict
              [(''resource_type'', JStr ''model''), (''root_path'', JStr ''/project''),
               (''raw_sql'', JStr ''select 1''), (''compiled_sql'', JStr ''select 1'')]),
           (''seed.shop.countries'', JDict
              [(''resource_type'', JStr ''seed''), (''root_path'', JStr ''/project''),
               (''raw_sql'', JStr []), (''refs'', JList []),
               (''depends_on'', JDict [(''macros'', JList []), (''nodes'', JList [])])])]),
       (''disabled'', JDict
          [(''model.shop.old'', JList
              [JDict [(''resource_type'', JStr ''model''), (''raw_sql'', JStr ''select 2'')]])]),
       (''metrics'', JDict
          [(''metric.shop.revenue'', JDict
              [(''name'', JStr ''revenue''), (''type'', JStr ''expression''),
               (''sql'', JStr ''a + b''), (''root_path'', JStr ''/project'')])]),
       (''exposures'', JDict []),
       (''sources'', JDict
          [(''source.shop.raw.orders'', JDict
              [(''name'', JStr ''orders''), (''root_path'', JStr ''/project'')])]),
       (''macros'', JDict []),
       (''docs'', JDict
          [(''shop.overview'', JDict
              [(''name'', JStr ''overview''), (''root_path'', JStr ''/project''),
               (''resource_type'', JStr ''docs'')])])]"

text \<open>The same manifest after the upgrade pass.\<close>

definition upgraded_manifest :: json where
  "upgraded_manifest =
     JDict
      [(''metadata'', JDict [(''dbt_schema_version'',
          JStr ''https://schemas.getdbt.com/dbt/manifest/v6.json'')]),
       (''nodes'', JDict
          [(''model.shop.orders'', JDict
              [(''resource_type'', JStr ''model''), (''raw_code'', JStr ''select 1''),
               (''compiled_code'', JStr ''select 1''), (''language'', JStr ''sql'')]),
           (''seed.shop.countries'', JDict
              [(''resource_type'', JStr ''seed''), (''root_path'', JStr ''/project''),
               (''depends_on'', JDict [(''macros'', JList [])]),
               (''raw_code'', JStr [])])]),
       (''disabled'', JDict
          [(''model.shop.old'', JList
              [JDict [(''resource_type'', JStr ''model''), (''raw_code'', JStr ''select 2''),
                      (''language'', JStr ''sql'')]])]),
       (''metrics'', JDict
          [(''metric.shop.revenue'', JDict
              [(''name'', JStr ''revenue''), (''expression'', JStr ''a + b''),
               (''calculation_method'', JStr ''derived'')])]),
       (''exposures'', JDict []),
       (''sources'', JDict
          [(''source.shop.raw.orders'', JDict [(''name'', JStr ''orders'')])]),
       (''macros'', JDict []),
       (''docs'', JDict
          [(''shop.overview'', JDict
              [(''name'', JStr ''overview''), (''resource_type'', JStr ''doc'')])])]"

text \<open>
  Reading the schema version. \<^verbatim>\<open>x.get(k, default)\<close>, \<^verbatim>\<open>k in x\<close> and \<^verbatim>\<open>x[k]\<close> on a value
  that may not be a dict; \<^verbatim>\<open>s.split(c)\<close>; \<^verbatim>\<open>int\<close> of one character; \<^verbatim>\<open>str\<close> of an integer.
\<close>

definition py_get :: "json \<Rightarrow> string \<Rightarrow> json \<Rightarrow> error + json" where
  "py_get x k dflt =
     (case x of
        JDict d \<Rightarrow> Inr (case map_of d k of None \<Rightarrow> dflt | Some v \<Rightarrow> v)
      | _ \<Rightarrow> Inl AttributeError)"

definition py_contains :: "string \<Rightarrow> json \<Rightarrow> error + bool" where
  "py_contains k x =
     (case x of
        JDict d \<Rightarrow> Inr (dict_has d k)
      | JStr s \<Rightarrow> Inr (sublist k s)
      | JList xs \<Rightarrow> Inr (JStr k \<in> set xs)
      | _ \<Rightarrow> Inl TypeError)"

definition py_getitem :: "json \<Rightarrow> string \<Rightarrow> error + json" where
  "py_getitem x k =
     (case x of
        JDict d \<Rightarrow> (case map_of d k of None \<Rightarrow> Inl (KeyError k) | Some v \<Rightarrow> Inr v)
      | _ \<Rightarrow> Inl TypeError)"

fun split_on :: "char \<Rightarrow> string \<Rightarrow> string list" where
  "split_on c [] = [[]]"
| "split_on c (x # xs) =
     (if x = c then [] # split_on c xs
      else (case split_on c xs of
              p # ps \<Rightarrow> (x # p) # ps
            | [] \<Rightarrow> [[x]]))"

definition digit_value :: "char \<Rightarrow> nat option" where
  "digit_value c =
     (if c \<in> set ''0123456789'' then Some (of_char c - 48) else None)"

definition digit_char :: "nat \<Rightarrow> char" where
  "digit_char n = char_of (48 + n)"

function str_nat :: "nat \<Rightarrow> string" where
  "str_nat n = (if n < 10 then [digit_char n] else str_nat (n div 10) @ [digit_char (n mod 10)])"
  by pat_completeness auto
termination
  by (relation "measure (\<lambda>n. n)") auto

declare str_nat.simps [simp del]

definition str_int :: "int \<Rightarrow> string" where
  "str_int i = (if i < 0 then ''-'' @ str_nat (nat (- i)) else str_nat (nat i))"

definition BASE_SCHEMAS_URL :: string where
  "BASE_SCHEMAS_URL = ''https://schemas.getdbt.com/''"

record SchemaVersion =
  name :: string
  version :: int

definition SchemaVersion_path :: "SchemaVersion \<Rightarrow> string" where
  "SchemaVersion_path self =
     ''dbt/'' @ SchemaVersion.name self @ ''/v'' @ str_int (version self) @ ''.json''"

definition SchemaVersion_str :: "SchemaVersion \<Rightarrow> string" where
  "SchemaVersion_str self = BASE_SCHEMAS_URL @ SchemaVersion_path self"

definition get_manifest_schema_version :: "json \<Rightarrow> error + int" where
  "get_manifest_schema_version dct =
     then_do (py_get dct ''metadata'' (JDict [])) (\<lambda>metadata.
     then_do (py_get metadata ''dbt_schema_version'' JNull) (\<lambda>schema_version.
       if \<not> truthy schema_version
       then Inl (ValueError (''Manifest doesn'' @ [squote] @ ''t have schema version''))
       else
         (case schema_version of
            JStr s \<Rightarrow>
              (let parts = split_on CHR ''.'' s in
               if length parts < 2 then Inl IndexError
               else
                 (let piece = parts ! (length parts - 2) in
                  if piece = [] then Inl IndexError
                  else
                    (case digit_value (last piece) of
                       None \<Rightarrow>
                         Inl (ValueError (''invalid literal for int() with base 10: ''
                                @ [squote] @ [last piece] @ [squote]))
                     | Some n \<Rightarrow> Inr (int n))))
          | _ \<Rightarrow> Inl AttributeError)))"

text \<open>
  A versioned schema class: its \<^verbatim>\<open>dbt_schema_version\<close> and its
  \<^verbatim>\<open>compatible_previous_versions()\<close>, each possibly not there (\<^verbatim>\<open>hasattr\<close>).
\<close>

record VersionedSchema =
  dbt_schema_version :: "SchemaVersion option"
  compatible_previous_versions :: "(string \<times> int) list option"

text \<open>
  \<^verbatim>\<open>str(schema_version) in compatible_versions\<close>: the compatible versions are schema
  URLs, which \<^verbatim>\<open>str\<close> of a value that is not a string never equals.
\<close>

definition is_compatible_version :: "VersionedSchema \<Rightarrow> json \<Rightarrow> bool" where
  "is_compatible_version cls schema_version =
     (let compatible_versions =
            (case dbt_schema_version cls of None \<Rightarrow> [] | Some v \<Rightarrow> [SchemaVersion_str v])
            @ (case compatible_previous_versions cls of
                 None \<Rightarrow> []
               | Some vs \<Rightarrow>
                   map (\<lambda>nv. SchemaVersion_str
                                \<lparr> SchemaVersion.name = fst nv, version = snd nv \<rparr>) vs)
      in case schema_version of
           JStr s \<Rightarrow> s \<in> set compatible_versions
         | _ \<Rightarrow> False)"

definition check_metadata_version :: "VersionedSchema \<Rightarrow> json \<Rightarrow> error + unit" where
  "check_metadata_version cls data =
     (case dbt_schema_version cls of
        None \<Rightarrow> Inr ()
      | Some expected \<Rightarrow>
          then_do (py_contains ''metadata'' data) (\<lambda>has_metadata.
            if \<not> has_metadata then Inr ()
            else
              then_do (py_getitem data ''metadata'') (\<lambda>metadata.
              then_do (py_contains ''dbt_schema_version'' metadata) (\<lambda>has_version.
                if \<not> has_version then Inr ()
                else
                  then_do (py_getitem metadata ''dbt_schema_version'')
                    (\<lambda>previous_schema_version.
                       if \<not> is_compatible_version cls previous_schema_version
                       then Inl (IncompatibleSchemaError (SchemaVersion_str expected)
                                   previous_schema_version)
                       else Inr ())))))"

text \<open>
  \<^verbatim>\<open>read_and_check_versions\<close> on the JSON document read from the path; the result is the
  data handed to \<^verbatim>\<open>cls.from_dict\<close>.
\<close>

definition read_and_check_versions :: "VersionedSchema \<Rightarrow> json \<Rightarrow> error + json" where
  "read_and_check_versions cls data =
     then_do (check_metadata_version cls data) (\<lambda>u.
     then_do (get_manifest_schema_version data) (\<lambda>v.
       if v \<le> 7 then upgrade_manifest_json data else Inr data))"

text \<open>
  The class \<^verbatim>\<open>VersionedSchema\<close> itself, which only annotates \<^verbatim>\<open>dbt_schema_version\<close>
  and so has no such attribute; a manifest class at schema version 10; and a manifest
  written at that version holding a Python model, before and after the upgrade pass.
\<close>

definition versioned_schema_base :: VersionedSchema where
  "versioned_schema_base =
     \<lparr> dbt_schema_version = None, compatible_previous_versions = None \<rparr>"

definition manifest_class_v10 :: VersionedSchema where
  "manifest_class_v10 =
     \<lparr> dbt_schema_version = Some \<lparr> SchemaVersion.name = ''manifest'', version = 10 \<rparr>,
       compatible_previous_versions = Some [(''manifest'', 9), (''manifest'', 8)] \<rparr>"

definition manifest_v10 :: json where
  "manifest_v10 =
     JDict
      [(''metadata'', JDict [(''dbt_schema_version'',
          JStr ''https://schemas.getdbt.com/dbt/manifest/v10.json'')]),
       (''nodes'', JDict
          [(''model.shop.forecast'', JDict
              [(''resource_type'', JStr ''model''), (''language'', JStr ''python''),
               (''raw_code'', JStr ''def model(dbt, session): ...'')])])]"

definition manifest_v10_read :: json where
  "manifest_v10_read =
     JDict
      [(''metadata'', JDict [(''dbt_schema_version'',
          JStr ''https://schemas.getdbt.com/dbt/manifest/v10.json'')]),
       (''nodes'', JDict
          [(''model.shop.forecast'', JDict
              [(''resource_type'', JStr ''model''), (''language'', JStr ''sql''),
               (''raw_code'', JStr ''def model(dbt, session): ...'')])])]"

section \<open>Change detection\<close>

lemma dict_eq_refl: "dict_eq d d"
  by (simp add: dict_eq_def list_all_iff)


lemma same_database_representation_keys_refl:
  "same_database_representation_keys ks d d"
  by (induction ks) simp_all


text \<open>
  C1: an executable node compared with itself (the same raw body, unrendered config,
  persisted descriptions and fqn) is reported unchanged, also for a generic test node;
  compared with no old version (\<^verbatim>\<open>None\<close>) an executable node is reported changed, whereas
  a source, an exposure and a metric are reported unchanged.
\<close>

theorem same_contents_self_and_none:
  "same_contents (n :: 'a ParsedNode_scheme) (Some n)
   \<and> GenericTestNode_same_contents n (Some n)
   \<and> \<not> same_contents n (None :: 'a ParsedNode_scheme option)
   \<and> \<not> GenericTestNode_same_contents n (None :: 'a ParsedNode_scheme option)
   \<and> SourceDefinition_same_contents s None
   \<and> Exposure_same_contents e None
   \<and> Metric_same_contents m None"
  by (simp add: same_contents_def GenericTestNode_same_contents_def same_body_def
      same_config_def config_same_contents_def dict_eq_refl same_persisted_description_def
      same_fqn_def same_database_representation_def same_database_representation_keys_refl
      SourceDefinition_same_contents_def Exposure_same_contents_def Metric_same_contents_def)


theorem same_contents_self_and_none_witness:
  "same_contents (example_node ''select 1'') (Some (example_node ''select 1''))
   \<and> \<not> same_contents (example_node ''select 1'') (None :: ParsedNode option)"
  using same_contents_self_and_none [of "example_node ''select 1''"]
  by simp

section \<open>Seeds\<close>

lemma sublist_join: "x \<in> set xs \<Longrightarrow> sublist x (join sep xs)"
proof (induction sep xs rule: join.induct)
  case (1 sep)
  then show ?case by simp
next
  case (2 sep y)
  then show ?case by simp
next
  case (3 sep a b bs)
  show ?case
  proof (cases "x = a")
    case True
    then have "join sep (a # b # bs) = [] @ x @ (sep @ join sep (b # bs))" by simp
    then show ?thesis unfolding sublist_def by blast
  next
    case False
    with 3 have "sublist x (join sep (b # bs))" by simp
    then have "sublist x ((a @ sep) @ join sep (b # bs))"
      unfolding sublist_def by (metis append.assoc)
    then show ?thesis by simp
  qed
qed

lemma sublist_message_uid: "sublist uid (implicit_dependency_message uid hl)"
  unfolding implicit_dependency_message_def sublist_def
  by (metis append.assoc)

lemma sublist_message_hooks: "sublist hl (implicit_dependency_message uid hl)"
  unfolding implicit_dependency_message_def sublist_def
  by (metis append.assoc)

text \<open>
  C7: reading \<^verbatim>\<open>refs\<close>, \<^verbatim>\<open>sources\<close> or \<^verbatim>\<open>metrics\<close> of a seed raises a parsing error
  whose message contains the seed's unique id and, for every pre-hook and every post-hook
  of its configuration, the hook's line with its SQL text; \<^verbatim>\<open>depends_on_nodes\<close> of a
  seed is the empty list.
\<close>

theorem seed_refs_raise_parsing_error:
  "\<exists>message.
     SeedNode_refs seed = Inl (ParsingError message)
     \<and> SeedNode_sources seed = Inl (ParsingError message)
     \<and> SeedNode_metrics seed = Inl (ParsingError message)
     \<and> sublist (unique_id seed) message
     \<and> (\<forall>hook \<in> set (pre_hook (config seed)).
           sublist (sql hook) message \<and> sublist (pre_hook_line hook) message)
     \<and> (\<forall>hook \<in> set (post_hook (config seed)).
           sublist (sql hook) message \<and> sublist (post_hook_line hook) message)
     \<and> SeedNode_depends_on_nodes seed = []"
proof -
  define hooks where
    "hooks = map pre_hook_line (pre_hook (config seed)) @ map post_hook_line (post_hook (config seed))"
  define message where
    "message = implicit_dependency_message (unique_id seed) (join [newline] hooks)"
  have raised: "disallow_implicit_dependencies seed = Inl (ParsingError message)"
    by (simp add: disallow_implicit_dependencies_def message_def hooks_def)
  have line: "sublist l message" if "l \<in> set hooks" for l
  proof -
    have "sublist l (join [newline] hooks)" using that by (rule sublist_join)
    moreover have "sublist (join [newline] hooks) message"
      unfolding message_def by (rule sublist_message_hooks)
    ultimately show ?thesis by (rule sublist_order.order_trans)
  qed
  have pre_sql: "sublist (sql h) (pre_hook_line h)" for h
    unfolding pre_hook_line_def sublist_def by (metis append.assoc)
  have post_sql: "sublist (sql h) (post_hook_line h)" for h
    unfolding post_hook_line_def sublist_def by (metis append.assoc)
  have pre: "sublist (sql h) message \<and> sublist (pre_hook_line h) message"
    if "h \<in> set (pre_hook (config seed))" for h
  proof -
    have "pre_hook_line h \<in> set hooks" using that by (simp add: hooks_def)
    then have "sublist (pre_hook_line h) message" by (rule line)
    with pre_sql [of h] show ?thesis by (blast intro: sublist_order.order_trans)
  qed
  have post: "sublist (sql h) message \<and> sublist (post_hook_line h) message"
    if "h \<in> set (post_hook (config seed))" for h
  proof -
    have "post_hook_line h \<in> set hooks" using that by (simp add: hooks_def)
    then have "sublist (post_hook_line h) message" by (rule line)
    with post_sql [of h] show ?thesis by (blast intro: sublist_order.order_trans)
  qed
  have uid: "sublist (unique_id seed) message"
    unfolding message_def by (rule sublist_message_uid)
  show ?thesis
    using raised pre post uid
    by (intro exI [of _ message])
       (simp add: SeedNode_refs_def SeedNode_sources_def SeedNode_metrics_def
         SeedNode_depends_on_nodes_def)
qed

theorem seed_refs_raise_parsing_error_witness:
  "\<exists>message.
     SeedNode_refs (example_seed (sha_hash ''0a1b'')) = Inl (ParsingError message)
     \<and> sublist ''seed.shop.countries'' message
     \<and> sublist (''select * from {{ ref('' @ [squote] @ ''orders'' @ [squote] @ '') }}'') message
     \<and> sublist ''analyze countries'' message
     \<and> SeedNode_depends_on_nodes (example_seed (sha_hash ''0a1b'')) = []"
proof -
  let ?seed = "example_seed (sha_hash ''0a1b'')"
  let ?pre = "\<lparr> sql = ''select * from {{ ref('' @ [squote] @ ''orders'' @ [squote] @ '') }}'' \<rparr>"
  let ?post = "\<lparr> sql = ''analyze countries'' \<rparr>"
  have pre: "?pre \<in> set (pre_hook (config ?seed))" by (simp add: example_seed_def)
  have post: "?post \<in> set (post_hook (config ?seed))" by (simp add: example_seed_def)
  have uid: "unique_id ?seed = ''seed.shop.countries''" by (simp add: example_seed_def)
  from seed_refs_raise_parsing_error [of ?seed] obtain message where
    m: "SeedNode_refs ?seed = Inl (ParsingError message)"
       "sublist (unique_id ?seed) message"
       "\<forall>hook \<in> set (pre_hook (config ?seed)). sublist (sql hook) message \<and> sublist (pre_hook_line hook) message"
       "\<forall>hook \<in> set (post_hook (config ?seed)). sublist (sql hook) message \<and> sublist (post_hook_line hook) message"
       "SeedNode_depends_on_nodes ?seed = []"
    by blast
  from m(3) pre have "sublist (sql ?pre) message" by blast
  moreover from m(4) post have "sublist (sql ?post) message" by blast
  ultimately show ?thesis using m(1) m(2) m(5) uid by (intro exI [of _ message]) simp
qed

text \<open>
  The claim that \<^verbatim>\<open>same_seeds\<close> returns the equality of the checksums for any two seeds,
  after a warning when the new checksum is a path sentinel, fails when warnings are errors:
  for a seed that grew past the size limit nothing is returned and nothing is emitted.
\<close>

theorem same_seeds_raises_counterexample:
  "same_seeds \<lparr> WARN_ERROR = True, WARN_ERROR_OPTIONS = [] \<rparr>
      (example_seed (path_hash ''seeds/countries.csv''))
      (example_seed (sha_hash ''0a1b'')) []
     = Inl (EventCompilationError (SeedIncreased ''shop'' ''countries''))"
  by (simp add: same_seeds_def warn_or_error_def example_seed_def path_hash_def sha_hash_def)

text \<open>
  C3 (amended): for any two seeds, \<^verbatim>\<open>same_seeds\<close> returns the equality of their checksums,
  unless the new checksum is a path sentinel and \<^verbatim>\<open>warn_or_error\<close> treats the warning as an
  error, in which case it raises the compilation error built from the warning and returns
  nothing. Two seeds with identical checksums that are not path sentinels compare equal
  and nothing is emitted. When the new checksum is a path sentinel and the call returns, one
  warning-level event was appended to the history before the result; when the old checksum
  was a content hash that event is \<^verbatim>\<open>SeedIncreased\<close> and the result is False. So a
  comparison with a path sentinel is never reported without a warning.
\<close>

theorem same_seeds_result_or_raise:
  "(FileHash.name (ParsedNode.checksum self) \<noteq> ''path'' \<longrightarrow>
      same_seeds fl self other history
        = Inr (history, ParsedNode.checksum self = ParsedNode.checksum other))
   \<and> (FileHash.name (ParsedNode.checksum self) \<noteq> ''path''
        \<and> ParsedNode.checksum self = ParsedNode.checksum other \<longrightarrow>
      same_seeds fl self other history = Inr (history, True))
   \<and> (FileHash.name (ParsedNode.checksum self) = ''path'' \<longrightarrow>
      (\<exists>e. level_tag e = WARN
         \<and> same_seeds fl self other history
             = (if WARN_ERROR fl \<or> warn_error_options_includes fl (event_name e)
                then Inl (EventCompilationError e)
                else Inr (history @ [e],
                          ParsedNode.checksum self = ParsedNode.checksum other))))
   \<and> (FileHash.name (ParsedNode.checksum self) = ''path''
        \<and> FileHash.name (ParsedNode.checksum other) \<noteq> ''path'' \<longrightarrow>
      same_seeds fl self other history
        = (if WARN_ERROR fl \<or> warn_error_options_includes fl ''SeedIncreased''
           then Inl (EventCompilationError
                       (SeedIncreased (package_name self) (BaseNode.name self)))
           else Inr (history @ [SeedIncreased (package_name self) (BaseNode.name self)],
                     False)))
   \<and> (\<forall>history' r. same_seeds fl self other history = Inr (history', r) \<longrightarrow>
        r = (ParsedNode.checksum self = ParsedNode.checksum other)
        \<and> (FileHash.name (ParsedNode.checksum self) = ''path'' \<longrightarrow>
              (\<exists>e. history' = history @ [e] \<and> level_tag e = WARN)))"
proof -
  have a: "FileHash.name (ParsedNode.checksum self) \<noteq> ''path'' \<longrightarrow>
      same_seeds fl self other history
        = Inr (history, ParsedNode.checksum self = ParsedNode.checksum other)"
    by (simp add: same_seeds_def Let_def)
  have b: "FileHash.name (ParsedNode.checksum self) \<noteq> ''path''
        \<and> ParsedNode.checksum self = ParsedNode.checksum other \<longrightarrow>
      same_seeds fl self other history = Inr (history, True)"
  proof
    assume h: "FileHash.name (ParsedNode.checksum self) \<noteq> ''path''
        \<and> ParsedNode.checksum self = ParsedNode.checksum other"
    from h have n: "FileHash.name (ParsedNode.checksum self) \<noteq> ''path''" by (rule conjunct1)
    from h have eq: "(ParsedNode.checksum self = ParsedNode.checksum other) = True"
      by (simp only: simp_thms)
    from a n have "same_seeds fl self other history
        = Inr (history, ParsedNode.checksum self = ParsedNode.checksum other)"
      by (rule mp)
    then show "same_seeds fl self other history = Inr (history, True)"
      by (simp only: eq)
  qed
  have c: "FileHash.name (ParsedNode.checksum self) = ''path'' \<longrightarrow>
      (\<exists>e. level_tag e = WARN
         \<and> same_seeds fl self other history
             = (if WARN_ERROR fl \<or> warn_error_options_includes fl (event_name e)
                then Inl (EventCompilationError e)
                else Inr (history @ [e],
                          ParsedNode.checksum self = ParsedNode.checksum other)))"
  proof
    assume path: "FileHash.name (ParsedNode.checksum self) = ''path''"
    let ?e = "if FileHash.name (ParsedNode.checksum other) \<noteq> ''path''
              then SeedIncreased (package_name self) (BaseNode.name self)
              else if ParsedNode.checksum self = ParsedNode.checksum other
              then SeedExceedsLimitSamePath (package_name self) (BaseNode.name self)
              else SeedExceedsLimitAndPathChanged (package_name self) (BaseNode.name self)"
    have "same_seeds fl self other history
             = (if WARN_ERROR fl \<or> warn_error_options_includes fl (event_name ?e)
                then Inl (EventCompilationError ?e)
                else Inr (history @ [?e],
                          ParsedNode.checksum self = ParsedNode.checksum other))"
      using path by (simp add: same_seeds_def warn_or_error_def fire_event_def Let_def)
    moreover have "level_tag ?e = WARN" by simp
    ultimately show "\<exists>e. level_tag e = WARN
         \<and> same_seeds fl self other history
             = (if WARN_ERROR fl \<or> warn_error_options_includes fl (event_name e)
                then Inl (EventCompilationError e)
                else Inr (history @ [e],
                          ParsedNode.checksum self = ParsedNode.checksum other))"
      by blast
  qed
  have d: "FileHash.name (ParsedNode.checksum self) = ''path''
        \<and> FileHash.name (ParsedNode.checksum other) \<noteq> ''path'' \<longrightarrow>
      same_seeds fl self other history
        = (if WARN_ERROR fl \<or> warn_error_options_includes fl ''SeedIncreased''
           then Inl (EventCompilationError
                       (SeedIncreased (package_name self) (BaseNode.name self)))
           else Inr (history @ [SeedIncreased (package_name self) (BaseNode.name self)],
                     False))"
    by (auto simp add: same_seeds_def warn_or_error_def fire_event_def Let_def)
  have e: "\<forall>history' r. same_seeds fl self other history = Inr (history', r) \<longrightarrow>
        r = (ParsedNode.checksum self = ParsedNode.checksum other)
        \<and> (FileHash.name (ParsedNode.checksum self) = ''path'' \<longrightarrow>
              (\<exists>e. history' = history @ [e] \<and> level_tag e = WARN))"
    by (auto simp add: same_seeds_def warn_or_error_def fire_event_def Let_def
        split: if_splits)
  from d e have de: "(FileHash.name (ParsedNode.checksum self) = ''path''
        \<and> FileHash.name (ParsedNode.checksum other) \<noteq> ''path'' \<longrightarrow>
      same_seeds fl self other history
        = (if WARN_ERROR fl \<or> warn_error_options_includes fl ''SeedIncreased''
           then Inl (EventCompilationError
                       (SeedIncreased (package_name self) (BaseNode.name self)))
           else Inr (history @ [SeedIncreased (package_name self) (BaseNode.name self)],
                     False)))
   \<and> (\<forall>history' r. same_seeds fl self other history = Inr (history', r) \<longrightarrow>
        r = (ParsedNode.checksum self = ParsedNode.checksum other)
        \<and> (FileHash.name (ParsedNode.checksum self) = ''path'' \<longrightarrow>
              (\<exists>e. history' = history @ [e] \<and> level_tag e = WARN)))"
    by (rule conjI)
  show ?thesis
    apply (rule conjI)
     apply (rule a)
    apply (rule conjI)
     apply (rule b)
    apply (rule conjI)
     apply (rule c)
    apply (rule de)
    done
qed

theorem same_seeds_result_or_raise_witness:
  "same_seeds \<lparr> WARN_ERROR = False, WARN_ERROR_OPTIONS = [''SeedExceedsLimitSamePath''] \<rparr>
      (example_seed (path_hash ''seeds/countries.csv'')) (example_seed (sha_hash ''0a1b'')) []
     = Inr ([SeedIncreased ''shop'' ''countries''], False)
   \<and> same_seeds \<lparr> WARN_ERROR = False, WARN_ERROR_OPTIONS = [''SeedExceedsLimitSamePath''] \<rparr>
      (example_seed (sha_hash ''0a1b'')) (example_seed (sha_hash ''0a1b'')) []
     = Inr ([], True)"
proof -
  let ?fl = "\<lparr> WARN_ERROR = False, WARN_ERROR_OPTIONS = [''SeedExceedsLimitSamePath''] \<rparr>"
  let ?new = "example_seed (path_hash ''seeds/countries.csv'')"
  let ?old = "example_seed (sha_hash ''0a1b'')"
  have new: "FileHash.name (ParsedNode.checksum ?new) = ''path''"
    by (simp add: example_seed_def path_hash_def)
  have old: "FileHash.name (ParsedNode.checksum ?old) \<noteq> ''path''"
    by (simp add: example_seed_def sha_hash_def)
  have both: "FileHash.name (ParsedNode.checksum ?new) = ''path''
        \<and> FileHash.name (ParsedNode.checksum ?old) \<noteq> ''path''"
    using new old by (rule conjI)
  have same: "FileHash.name (ParsedNode.checksum ?old) \<noteq> ''path''
        \<and> ParsedNode.checksum ?old = ParsedNode.checksum ?old"
    using old by simp
  note grown = same_seeds_result_or_raise
    [of ?new ?fl ?old "[]", THEN conjunct2, THEN conjunct2, THEN conjunct2, THEN conjunct1,
     THEN mp, OF both]
  note equal = same_seeds_result_or_raise
    [of ?old ?fl ?old "[]", THEN conjunct2, THEN conjunct1, THEN mp, OF same]
  have no_raise: "\<not> (WARN_ERROR ?fl \<or> warn_error_options_includes ?fl ''SeedIncreased'')"
    by (simp add: warn_error_options_includes_def)
  have names: "package_name ?new = ''shop''" "BaseNode.name ?new = ''countries''"
    by (simp_all add: example_seed_def)
  have first: "same_seeds ?fl ?new ?old [] = Inr ([SeedIncreased ''shop'' ''countries''], False)"
    unfolding grown using no_raise by (simp only: if_False append_Nil names)
  from first equal show ?thesis by (rule conjI)
qed

text \<open>
  The claim that exactly one of the three events is emitted whenever the new checksum is a
  path sentinel fails when warnings are errors: nothing is emitted, the call raises.
\<close>

theorem same_seeds_warning_raised_counterexample:
  "same_seeds \<lparr> WARN_ERROR = True, WARN_ERROR_OPTIONS = [] \<rparr>
      (example_seed (path_hash ''seeds/countries.csv''))
      (example_seed (path_hash ''seeds/countries.csv'')) []
     = Inl (EventCompilationError (SeedExceedsLimitSamePath ''shop'' ''countries''))"
  by (simp add: same_seeds_def warn_or_error_def example_seed_def path_hash_def)

text \<open>
  C10 (amended): when the new checksum is a path sentinel, \<^verbatim>\<open>same_seeds\<close> hands exactly
  one event to \<^verbatim>\<open>warn_or_error\<close>, one of \<^verbatim>\<open>SeedIncreased\<close>, \<^verbatim>\<open>SeedExceedsLimitSamePath\<close>
  and \<^verbatim>\<open>SeedExceedsLimitAndPathChanged\<close>: it is appended to the event history and the
  equality of the checksums is returned, unless warnings are errors for it, in which case
  the call raises the compilation error built from it and emits nothing. Otherwise no
  event is emitted. \<^verbatim>\<open>SeedExceedsLimitChecksumChanged\<close> is never emitted and never raised:
  the last branch cannot be reached.
\<close>

theorem same_seeds_one_warning_or_raise:
  "(FileHash.name (ParsedNode.checksum self) = ''path'' \<longrightarrow>
      (\<exists>e. (e = SeedIncreased (package_name self) (BaseNode.name self)
            \<or> e = SeedExceedsLimitSamePath (package_name self) (BaseNode.name self)
            \<or> e = SeedExceedsLimitAndPathChanged (package_name self) (BaseNode.name self))
         \<and> same_seeds fl self other history
             = (if WARN_ERROR fl \<or> warn_error_options_includes fl (event_name e)
                then Inl (EventCompilationError e)
                else Inr (history @ [e],
                          ParsedNode.checksum self = ParsedNode.checksum other))))
   \<and> (FileHash.name (ParsedNode.checksum self) \<noteq> ''path'' \<longrightarrow>
      same_seeds fl self other history
        = Inr (history, ParsedNode.checksum self = ParsedNode.checksum other))
   \<and> same_seeds fl self other history
        \<noteq> Inl (EventCompilationError (SeedExceedsLimitChecksumChanged p n c))
   \<and> (\<forall>history' r. same_seeds fl self other history = Inr (history', r) \<longrightarrow>
        SeedExceedsLimitChecksumChanged p n c \<notin> set (drop (length history) history'))"
proof -
  have a: "\<exists>e. (e = SeedIncreased (package_name self) (BaseNode.name self)
            \<or> e = SeedExceedsLimitSamePath (package_name self) (BaseNode.name self)
            \<or> e = SeedExceedsLimitAndPathChanged (package_name self) (BaseNode.name self))
         \<and> same_seeds fl self other history
             = (if WARN_ERROR fl \<or> warn_error_options_includes fl (event_name e)
                then Inl (EventCompilationError e)
                else Inr (history @ [e],
                          ParsedNode.checksum self = ParsedNode.checksum other))"
    if path: "FileHash.name (ParsedNode.checksum self) = ''path''"
  proof -
    let ?e = "if FileHash.name (ParsedNode.checksum other) \<noteq> ''path''
              then SeedIncreased (package_name self) (BaseNode.name self)
              else if ParsedNode.checksum self = ParsedNode.checksum other
              then SeedExceedsLimitSamePath (package_name self) (BaseNode.name self)
              else SeedExceedsLimitAndPathChanged (package_name self) (BaseNode.name self)"
    have "same_seeds fl self other history
             = (if WARN_ERROR fl \<or> warn_error_options_includes fl (event_name ?e)
                then Inl (EventCompilationError ?e)
                else Inr (history @ [?e],
                          ParsedNode.checksum self = ParsedNode.checksum other))"
      using path by (simp add: same_seeds_def warn_or_error_def fire_event_def Let_def)
    moreover have "?e = SeedIncreased (package_name self) (BaseNode.name self)
            \<or> ?e = SeedExceedsLimitSamePath (package_name self) (BaseNode.name self)
            \<or> ?e = SeedExceedsLimitAndPathChanged (package_name self) (BaseNode.name self)"
      by simp
    ultimately show ?thesis by blast
  qed
  have b: "FileHash.name (ParsedNode.checksum self) \<noteq> ''path'' \<Longrightarrow>
      same_seeds fl self other history
        = Inr (history, ParsedNode.checksum self = ParsedNode.checksum other)"
    by (simp add: same_seeds_def Let_def)
  have c: "same_seeds fl self other history
        \<noteq> Inl (EventCompilationError (SeedExceedsLimitChecksumChanged p n c))"
    by (simp add: same_seeds_def warn_or_error_def fire_event_def Let_def)
  have d: "SeedExceedsLimitChecksumChanged p n c \<notin> set (drop (length history) history')"
    if "same_seeds fl self other history = Inr (history', r)" for history' r
    using that
    by (auto simp add: same_seeds_def warn_or_error_def fire_event_def Let_def
        split: if_splits)
  from a b c d show ?thesis by blast
qed

theorem same_seeds_one_warning_or_raise_witness:
  "(\<exists>e. same_seeds \<lparr> WARN_ERROR = False, WARN_ERROR_OPTIONS = [''UnusedResourceConfigPath''] \<rparr>
          (example_seed (path_hash ''seeds/countries.csv''))
          (example_seed (path_hash ''data/countries.csv'')) []
        = Inr ([e], False))
   \<and> same_seeds \<lparr> WARN_ERROR = False, WARN_ERROR_OPTIONS = [''UnusedResourceConfigPath''] \<rparr>
      (example_seed (sha_hash ''0a1b''))
      (example_seed (path_hash ''data/countries.csv'')) []
     = Inr ([], False)"
proof -
  let ?fl = "\<lparr> WARN_ERROR = False, WARN_ERROR_OPTIONS = [''UnusedResourceConfigPath''] \<rparr>"
  let ?new = "example_seed (path_hash ''seeds/countries.csv'')"
  let ?old = "example_seed (path_hash ''data/countries.csv'')"
  let ?small = "example_seed (sha_hash ''0a1b'')"
  have path: "FileHash.name (ParsedNode.checksum ?new) = ''path''"
    by (simp add: example_seed_def path_hash_def)
  have differ: "ParsedNode.checksum ?new \<noteq> ParsedNode.checksum ?old"
    by (simp add: example_seed_def path_hash_def)
  have no_raise: "\<not> (WARN_ERROR ?fl \<or> warn_error_options_includes ?fl (event_name e))"
    if "e = SeedIncreased p n \<or> e = SeedExceedsLimitSamePath p n
        \<or> e = SeedExceedsLimitAndPathChanged p n" for e p n
    using that by (auto simp add: warn_error_options_includes_def)
  note thm_new = same_seeds_one_warning_or_raise [of ?new ?fl ?old "[]"]
  from thm_new have
    "FileHash.name (ParsedNode.checksum ?new) = ''path'' \<longrightarrow>
      (\<exists>e. (e = SeedIncreased (package_name ?new) (BaseNode.name ?new)
            \<or> e = SeedExceedsLimitSamePath (package_name ?new) (BaseNode.name ?new)
            \<or> e = SeedExceedsLimitAndPathChanged (package_name ?new) (BaseNode.name ?new))
         \<and> same_seeds ?fl ?new ?old []
             = (if WARN_ERROR ?fl \<or> warn_error_options_includes ?fl (event_name e)
                then Inl (EventCompilationError e)
                else Inr ([] @ [e], ParsedNode.checksum ?new = ParsedNode.checksum ?old)))"
    by (rule conjunct1)
  from this path have
    "\<exists>e. (e = SeedIncreased (package_name ?new) (BaseNode.name ?new)
            \<or> e = SeedExceedsLimitSamePath (package_name ?new) (BaseNode.name ?new)
            \<or> e = SeedExceedsLimitAndPathChanged (package_name ?new) (BaseNode.name ?new))
         \<and> same_seeds ?fl ?new ?old []
             = (if WARN_ERROR ?fl \<or> warn_error_options_includes ?fl (event_name e)
                then Inl (EventCompilationError e)
                else Inr ([] @ [e], ParsedNode.checksum ?new = ParsedNode.checksum ?old))"
    by (rule mp)
  then obtain e where e:
    "e = SeedIncreased (package_name ?new) (BaseNode.name ?new)
     \<or> e = SeedExceedsLimitSamePath (package_name ?new) (BaseNode.name ?new)
     \<or> e = SeedExceedsLimitAndPathChanged (package_name ?new) (BaseNode.name ?new)"
    "same_seeds ?fl ?new ?old []
       = (if WARN_ERROR ?fl \<or> warn_error_options_includes ?fl (event_name e)
          then Inl (EventCompilationError e)
          else Inr ([] @ [e], ParsedNode.checksum ?new = ParsedNode.checksum ?old))"
    by (elim exE conjE)
  from no_raise [OF e(1)] e(2) differ
  have "same_seeds ?fl ?new ?old [] = Inr ([e], False)"
    by (simp only: if_False append_Nil simp_thms)
  then have first: "\<exists>e. same_seeds ?fl ?new ?old [] = Inr ([e], False)"
    by (rule exI [of "\<lambda>x. same_seeds ?fl ?new ?old [] = Inr ([x], False)" e])
  have small: "FileHash.name (ParsedNode.checksum ?small) \<noteq> ''path''"
    by (simp add: example_seed_def sha_hash_def)
  have differ2: "ParsedNode.checksum ?small \<noteq> ParsedNode.checksum ?old"
    by (simp add: example_seed_def path_hash_def sha_hash_def)
  note thm_small = same_seeds_one_warning_or_raise [of ?small ?fl ?old "[]"]
  from thm_small have
    "FileHash.name (ParsedNode.checksum ?small) \<noteq> ''path'' \<longrightarrow>
      same_seeds ?fl ?small ?old []
        = Inr ([], ParsedNode.checksum ?small = ParsedNode.checksum ?old)"
    by (rule conjunct1 [OF conjunct2])
  from this small have "same_seeds ?fl ?small ?old []
      = Inr ([], ParsedNode.checksum ?small = ParsedNode.checksum ?old)"
    by (rule mp)
  with differ2 have second: "same_seeds ?fl ?small ?old [] = Inr ([], False)"
    by (simp only: simp_thms)
  from first second show ?thesis by (rule conjI)
qed

section \<open>Quoting policy\<close>

lemma replace_field_get_part:
  "get_part (replace_field k v p) c = (if c = k then v else get_part p c)"
  by (cases k; cases c) simp_all

lemma replace_dict_get_part:
  "distinct (map fst dct) \<Longrightarrow>
   get_part (replace_dict p dct) c
     = (case map_of dct c of Some v \<Rightarrow> v | None \<Rightarrow> get_part p c)"
proof (induction dct arbitrary: p)
  case Nil
  then show ?case by simp
next
  case (Cons kv dct)
  obtain k v where kv: "kv = (k, v)" by (cases kv)
  from Cons.prems have d: "distinct (map fst dct)" and k: "k \<notin> fst ` set dct"
    by (simp_all add: kv)
  from k have none: "map_of dct k = None" by (simp add: map_of_eq_None_iff)
  show ?case
    using none by (simp add: kv Cons.IH [OF d] replace_field_get_part split: option.splits)
qed

lemma project_quoting_loop_lookup:
  "map_of (project_quoting_loop keys src result) c
     = (if c \<in> set keys
        then (case map_of src (component_str c) of
                Some (JBool b) \<Rightarrow> Some b
              | _ \<Rightarrow> map_of result c)
        else map_of result c)"
proof (induction keys arbitrary: result)
  case Nil
  then show ?case by simp
next
  case (Cons key keys)
  show ?case
    by (simp add: Cons.IH update_conv' split: option.splits json.splits)
qed

lemma project_quoting_loop_distinct:
  "distinct (map fst result) \<Longrightarrow> distinct (map fst (project_quoting_loop keys src result))"
  by (induction keys arbitrary: result)
     (simp_all add: distinct_update split: option.splits json.splits)

lemma project_quoting_dict_lookup:
  "map_of (project_quoting_dict src) c
     = (case map_of src (component_str c) of Some (JBool b) \<Rightarrow> Some b | _ \<Rightarrow> None)"
proof -
  have "c \<in> set all_components" by (cases c) (simp_all add: all_components_def)
  then show ?thesis
    by (simp add: project_quoting_dict_def project_quoting_loop_lookup
        split: option.splits json.splits)
qed

lemma replaced_get_part:
  "get_part (replace_dict p (project_quoting_dict src)) c
     = (case map_of src (component_str c) of Some (JBool b) \<Rightarrow> b | _ \<Rightarrow> get_part p c)"
proof -
  have "distinct (map fst (project_quoting_dict src))"
    by (simp add: project_quoting_dict_def project_quoting_loop_distinct)
  then show ?thesis
    by (simp add: replace_dict_get_part project_quoting_dict_lookup
        split: option.splits json.splits)
qed

lemma from_parts_quoting_parts:
  "from_parts_quoting p src =
     [(''database'', JBool (get_part (replace_dict p (project_quoting_dict src)) Database)),
      (''schema'', JBool (get_part (replace_dict p (project_quoting_dict src)) Schema)),
      (''identifier'', JBool (get_part (replace_dict p (project_quoting_dict src)) Identifier))]"
  by (simp add: from_parts_quoting_def Policy_to_dict_def)

lemma from_parts_quoting_general:
  "from_parts_quoting p s =
     [(''database'', JBool (case map_of s ''database'' of
                              Some (JBool b) \<Rightarrow> b | _ \<Rightarrow> Policy.database p)),
      (''schema'', JBool (case map_of s ''schema'' of
                              Some (JBool b) \<Rightarrow> b | _ \<Rightarrow> Policy.schema p)),
      (''identifier'', JBool (case map_of s ''identifier'' of
                              Some (JBool b) \<Rightarrow> b | _ \<Rightarrow> identifier_part p))]"
  apply (simp only: from_parts_quoting_parts)
  apply (simp only: replaced_get_part)
  apply (simp only: get_part.simps component_str.simps)
  done

lemma from_parts_quoting_example_bool:
  "from_parts_quoting example_policy [(''schema'', JBool False)]
       = [(''database'', JBool True), (''schema'', JBool False), (''identifier'', JBool True)]"
  by (simp add: from_parts_quoting_general example_policy_def)

lemma from_parts_quoting_example_string:
  "from_parts_quoting example_policy [(''schema'', JStr ''no'')]
       = [(''database'', JBool True), (''schema'', JBool True), (''identifier'', JBool True)]"
  by (simp add: from_parts_quoting_general example_policy_def)

text \<open>
  C4: the quoting computed by \<^verbatim>\<open>from_parts\<close> is the adapter's default quote policy with
  each of the three fields replaced by the value the translated project quoting dict gives
  for it when that value is a boolean, and left at the default otherwise (a missing key or
  a value that is not a boolean; no error). The dict built by \<^verbatim>\<open>_project_quoting_dict\<close>
  holds exactly the keys with boolean values. With a default of all True, a project
  quoting of schema False resolves to True, False, True, and a string for schema leaves
  all three True.
\<close>

theorem from_parts_quoting_overrides:
  "from_parts_quoting default_policy src =
     [(''database'', JBool (case map_of src ''database'' of
                              Some (JBool b) \<Rightarrow> b | _ \<Rightarrow> Policy.database default_policy)),
      (''schema'', JBool (case map_of src ''schema'' of
                              Some (JBool b) \<Rightarrow> b | _ \<Rightarrow> Policy.schema default_policy)),
      (''identifier'', JBool (case map_of src ''identifier'' of
                              Some (JBool b) \<Rightarrow> b | _ \<Rightarrow> identifier_part default_policy))]
   \<and> map_of (project_quoting_dict src) c
       = (case map_of src (component_str c) of Some (JBool b) \<Rightarrow> Some b | _ \<Rightarrow> None)
   \<and> from_parts_quoting example_policy [(''schema'', JBool False)]
       = [(''database'', JBool True), (''schema'', JBool False), (''identifier'', JBool True)]
   \<and> from_parts_quoting example_policy [(''schema'', JStr ''no'')]
       = [(''database'', JBool True), (''schema'', JBool True), (''identifier'', JBool True)]"
  apply (rule conjI)
   apply (rule from_parts_quoting_general)
  apply (rule conjI)
   apply (rule project_quoting_dict_lookup)
  apply (rule conjI)
   apply (rule from_parts_quoting_example_bool)
  apply (rule from_parts_quoting_example_string)
  done

theorem from_parts_quoting_overrides_witness:
  "from_parts_quoting \<lparr> Policy.database = False, Policy.schema = True, identifier_part = False \<rparr>
      [(''identifier'', JBool True), (''database'', JInt 1), (''schema'', JNull)]
     = [(''database'', JBool False), (''schema'', JBool True), (''identifier'', JBool True)]"
proof -
  let ?p = "\<lparr> Policy.database = False, Policy.schema = True, identifier_part = False \<rparr>"
  let ?s = "[(''identifier'', JBool True), (''database'', JInt 1), (''schema'', JNull)]"
  note t = from_parts_quoting_overrides [of ?p ?s Database, THEN conjunct1]
  show ?thesis by (simp add: t)
qed

section \<open>Unused config paths and package loading\<close>

lemma is_config_used_loop_iff:
  "is_config_used_loop path fqns = (\<exists>x \<in> set fqns. prefix path x)"
proof (induction fqns)
  case Nil
  then show ?case by simp
next
  case (Cons x fqns)
  have "(length path \<le> length x \<and> take (length path) x = path) = prefix path x"
  proof
    assume "length path \<le> length x \<and> take (length path) x = path"
    then show "prefix path x" by (metis take_is_prefix)
  next
    assume "prefix path x"
    then show "length path \<le> length x \<and> take (length path) x = path"
      by (auto simp add: prefix_def)
  qed
  with Cons show ?case by auto
qed

lemma is_config_used_iff: "is_config_used path fqns = (\<exists>x \<in> set fqns. prefix path x)"
  by (cases fqns) (simp_all add: is_config_used_def is_config_used_loop_iff del: is_config_used_loop.simps)

lemma set_unused_of_type:
  "set (unused_of_type rt cps fqns acc)
     = set acc \<union> {join ''.'' (rt # cp) | cp. cp \<in> set cps \<and> \<not> is_config_used cp fqns}"
  by (induction cps arbitrary: acc) auto

lemma set_unused_resource_config_paths:
  "set (unused_resource_config_paths rcps rf dis acc)
     = set acc \<union> {join ''.'' (rt # cp) | rt cps cp.
          (rt, cps) \<in> set rcps \<and> cp \<in> set cps
          \<and> \<not> is_config_used cp ((case map_of rf rt of None \<Rightarrow> [] | Some u \<Rightarrow> u) @ dis)}"
proof (induction rcps arbitrary: acc)
  case Nil
  then show ?case by simp
next
  case (Cons a rcps)
  obtain rt cps where a: "a = (rt, cps)" by (cases a)
  show ?case
    unfolding a unused_resource_config_paths.simps Let_def Cons.IH set_unused_of_type
    by auto
qed

lemma load_projects_not_uninstalled:
  "load_projects env paths acc \<noteq> Inl (UninstalledPackagesFoundError a b c)"
  by (induction paths arbitrary: acc) (auto split: new_project_result.splits)

text \<open>
  C5: a declared config path counts as used exactly when it is a prefix of some fqn of the
  resource type's enabled resources or of the disabled ones. The paths collected for the
  report are, per resource type, exactly the declared config paths that are a prefix of no
  such fqn, each written as the resource type and the path joined by dots. Nothing is
  reported when there is none; otherwise they are handed to \<^verbatim>\<open>warn_or_error\<close> in one
  event.
\<close>

theorem unused_resource_config_paths_prefix:
  "is_config_used path fqns = (\<exists>x \<in> set fqns. prefix path x)
   \<and> set (unused_resource_config_paths (get_resource_config_paths self) resource_fqns disabled [])
       = {join ''.'' (rt # cp) | rt cps cp.
            (rt, cps) \<in> set (get_resource_config_paths self) \<and> cp \<in> set cps
            \<and> \<not> (\<exists>x \<in> set (case map_of resource_fqns rt of None \<Rightarrow> [] | Some u \<Rightarrow> u)
                           \<union> set disabled. prefix cp x)}
   \<and> warn_for_unused_resource_config_paths fl self resource_fqns disabled history
       = (if unused_resource_config_paths (get_resource_config_paths self)
                resource_fqns disabled [] = []
          then Inr history
          else warn_or_error fl
                 (UnusedResourceConfigPath
                    (unused_resource_config_paths (get_resource_config_paths self)
                       resource_fqns disabled []))
                 history)"
proof -
  have a: "is_config_used path fqns = (\<exists>x \<in> set fqns. prefix path x)"
    by (rule is_config_used_iff)
  have b: "set (unused_resource_config_paths (get_resource_config_paths self) resource_fqns disabled [])
       = {join ''.'' (rt # cp) | rt cps cp.
            (rt, cps) \<in> set (get_resource_config_paths self) \<and> cp \<in> set cps
            \<and> \<not> (\<exists>x \<in> set (case map_of resource_fqns rt of None \<Rightarrow> [] | Some u \<Rightarrow> u)
                           \<union> set disabled. prefix cp x)}"
    by (simp add: set_unused_resource_config_paths is_config_used_iff)
  have c: "warn_for_unused_resource_config_paths fl self resource_fqns disabled history
       = (if unused_resource_config_paths (get_resource_config_paths self)
                resource_fqns disabled [] = []
          then Inr history
          else warn_or_error fl
                 (UnusedResourceConfigPath
                    (unused_resource_config_paths (get_resource_config_paths self)
                       resource_fqns disabled []))
                 history)"
    by (simp add: warn_for_unused_resource_config_paths_def Let_def)
  show ?thesis
    apply (rule conjI)
     apply (rule a)
    apply (rule conjI)
     apply (rule b)
    apply (rule c)
    done
qed

lemma example_unused:
  "unused_resource_config_paths (get_resource_config_paths example_project)
      [(''models'', [[''a'', ''b'', ''model1'']])] [] []
     = [''models.a.c.d'']"
  by (simp add: get_resource_config_paths_def example_project_def startswith_def
      is_config_used_def)

theorem unused_resource_config_paths_prefix_witness:
  "get_config_paths (models example_project) [] [] = [[''a'', ''c'', ''d''], [''a'', ''b'']]
   \<and> warn_for_unused_resource_config_paths \<lparr> WARN_ERROR = False, WARN_ERROR_OPTIONS = [] \<rparr>
        example_project [(''models'', [[''a'', ''b'', ''model1'']])] [] []
       = Inr [UnusedResourceConfigPath [''models.a.c.d'']]"
proof -
  let ?fl = "\<lparr> WARN_ERROR = False, WARN_ERROR_OPTIONS = [] \<rparr>"
  have paths: "get_config_paths (models example_project) [] [] = [[''a'', ''c'', ''d''], [''a'', ''b'']]"
    by (simp add: example_project_def startswith_def)
  note t = unused_resource_config_paths_prefix
    [of "[]" "[]" example_project "[(''models'', [[''a'', ''b'', ''model1'']])]" "[]" ?fl "[]",
     THEN conjunct2, THEN conjunct2]
  have "warn_for_unused_resource_config_paths ?fl
        example_project [(''models'', [[''a'', ''b'', ''model1'']])] [] []
       = Inr [UnusedResourceConfigPath [''models.a.c.d'']]"
    unfolding t example_unused
    by (simp add: warn_or_error_def fire_event_def warn_error_options_includes_def)
  with paths show ?thesis by (rule conjI)
qed

text \<open>
  C6: with the dependencies cache unset, \<^verbatim>\<open>load_dependencies(base_only=False)\<close> raises the
  package count mismatch error, carrying the number of declared packages, the number of
  installed package directories and the packages install path, when the first number
  exceeds the second, and raises that error in no other case. The installed directories
  are the entries of the install path that are directories and whose name does not start
  with two underscores (none when the path does not exist).
\<close>

theorem load_dependencies_package_count_mismatch:
  "dependencies self = None \<Longrightarrow>
     (length (packages self) > length (get_project_directories env self) \<longrightarrow>
        load_dependencies env self False
          = Inl (UninstalledPackagesFoundError (length (packages self))
                   (length (get_project_directories env self)) (packages_install_path self)))
     \<and> ((\<exists>a b c. load_dependencies env self False = Inl (UninstalledPackagesFoundError a b c))
          \<longrightarrow> length (packages self) > length (get_project_directories env self))
     \<and> length (get_project_directories env self)
         = (case iterdir env (project_root self) (packages_install_path self) of
              None \<Rightarrow> 0
            | Some entries \<Rightarrow>
                length (filter (\<lambda>e. is_dir e \<and> \<not> startswith (entry_name e) ''__'') entries))"
proof -
  assume none: "dependencies self = None"
  have a: "load_dependencies env self False
          = Inl (UninstalledPackagesFoundError (length (packages self))
                   (length (get_project_directories env self)) (packages_install_path self))"
    if "length (packages self) > length (get_project_directories env self)"
    using that none by (simp add: load_dependencies_def Let_def)
  have b: "length (packages self) > length (get_project_directories env self)"
    if "load_dependencies env self False = Inl (UninstalledPackagesFoundError a b c)" for a b c
  proof (rule ccontr)
    assume "\<not> length (packages self) > length (get_project_directories env self)"
    with none that show False
      by (auto simp add: load_dependencies_def Let_def load_projects_not_uninstalled
          split: sum.splits)
  qed
  have c: "length (get_project_directories env self)
         = (case iterdir env (project_root self) (packages_install_path self) of
              None \<Rightarrow> 0
            | Some entries \<Rightarrow>
                length (filter (\<lambda>e. is_dir e \<and> \<not> startswith (entry_name e) ''__'') entries))"
    by (simp add: get_project_directories_def split: option.splits)
  from a b c show ?thesis by blast
qed

lemma example_directories:
  "get_project_directories example_environment example_project
     = [''/project/dbt_packages/dbt_utils'', ''/project/dbt_packages/codegen'']"
  by (simp add: get_project_directories_def example_environment_def example_project_def
      startswith_def)

theorem load_dependencies_package_count_mismatch_witness:
  "load_dependencies example_environment example_project False
     = Inl (UninstalledPackagesFoundError 3 2 ''dbt_packages'')"
proof -
  have none: "dependencies example_project = None" by (simp add: example_project_def)
  have more: "length (packages example_project)
                > length (get_project_directories example_environment example_project)"
    by (simp add: example_directories) (simp add: example_project_def)
  note t = load_dependencies_package_count_mismatch
    [OF none, of example_environment, THEN conjunct1, THEN mp, OF more]
  show ?thesis
    unfolding t example_directories by (simp add: example_project_def)
qed

section \<open>Manifest upgrade\<close>

lemma map_of_dict_set: "map_of (dict_set k v d) k' = (if k' = k then Some v else map_of d k')"
  by (simp add: dict_set_def update_conv')

lemma map_of_dict_del: "map_of (dict_del k d) k' = (if k' = k then None else map_of d k')"
  by (simp add: dict_del_def delete_conv')

lemma dict_del_absent: "map_of d k = None \<Longrightarrow> dict_del k d = d"
  by (simp add: dict_del_def map_of_eq_None_iff)

lemma dict_set_same: "map_of d k = Some v \<Longrightarrow> dict_set k v d = d"
  by (simp add: dict_set_def update_triv)

lemma dict_del_set_same: "dict_del k (dict_set k v d) = dict_del k d"
  by (simp add: dict_del_def dict_set_def delete_update_same)

lemma dict_del_idem: "dict_del k (dict_del k d) = dict_del k d"
  by (simp add: dict_del_def delete_idem)

lemma map_of_move_key:
  "old \<noteq> new \<Longrightarrow>
   map_of (move_key old new d) k
     = (if k = new then Some (dict_get d old) else if k = old then None else map_of d k)"
  by (simp add: move_key_def map_of_dict_set map_of_dict_del)

lemma then_do_Inr: "then_do r f = Inr y \<longleftrightarrow> (\<exists>x. r = Inr x \<and> f x = Inr y)"
  by (cases r) (simp_all add: then_do_def)

lemma then_do_simps [simp]: "then_do (Inr x) f = f x" "then_do (Inl e) f = Inl e"
  by (simp_all add: then_do_def)

subsection \<open>Nodes\<close>

lemma rename_sql_attr_result:
  assumes "rename_sql_attr x = Inr n"
  shows "map_of n ''raw_sql'' = None \<and> map_of n ''compiled_sql'' = None
         \<and> map_of n ''language'' = Some (JStr ''sql'')
         \<and> (\<exists>d. x = JDict d \<and> map_of n ''resource_type'' = map_of d ''resource_type'')"
proof -
  from assms obtain d where x: "x = JDict d"
    by (cases x) (simp_all add: rename_sql_attr_def split: if_splits)
  from assms show ?thesis
    unfolding x rename_sql_attr_def Let_def
    by (auto simp add: map_of_dict_set map_of_move_key dict_has_def)
qed

lemma rename_sql_attr_fixed:
  assumes "map_of n ''raw_sql'' = None" "map_of n ''compiled_sql'' = None"
    "map_of n ''language'' = Some (JStr ''sql'')"
  shows "rename_sql_attr (JDict n) = Inr n"
  using assms by (simp add: rename_sql_attr_def dict_has_def dict_set_same)

lemma rename_sql_attr_absent_language:
  assumes "map_of n ''raw_sql'' = None" "map_of n ''compiled_sql'' = None"
  shows "rename_sql_attr (JDict n) = Inr (dict_set ''language'' (JStr ''sql'') n)"
  using assms by (simp add: rename_sql_attr_def dict_has_def)

lemma upgrade_node_content_result:
  assumes "upgrade_node_content x = Inr y"
  shows "map_of y ''raw_sql'' = None \<and> map_of y ''compiled_sql'' = None
         \<and> map_of y ''language'' = Some (JStr ''sql'')
         \<and> (\<exists>rt. map_of y ''resource_type'' = Some rt
                \<and> (rt \<noteq> JStr ''seed'' \<longrightarrow> map_of y ''root_path'' = None))"
proof -
  from assms obtain n where n: "rename_sql_attr x = Inr n"
    and y: "(case map_of n ''resource_type'' of
         None \<Rightarrow> Inl (KeyError ''resource_type'')
       | Some resource_type \<Rightarrow>
           if resource_type \<noteq> JStr ''seed'' \<and> dict_has n ''root_path''
           then Inr (dict_del ''root_path'' n)
           else Inr n) = Inr y"
    unfolding upgrade_node_content_def then_do_Inr by blast
  note r = rename_sql_attr_result [OF n]
  from y r show ?thesis
    by (auto simp add: map_of_dict_del dict_has_def split: option.splits if_splits)
qed

lemma upgrade_node_content_fixed:
  assumes "map_of y ''raw_sql'' = None" "map_of y ''compiled_sql'' = None"
    "map_of y ''language'' = Some (JStr ''sql'')"
    "map_of y ''resource_type'' = Some rt"
    "rt \<noteq> JStr ''seed'' \<longrightarrow> map_of y ''root_path'' = None"
  shows "upgrade_node_content (JDict y) = Inr y"
  using assms
  by (auto simp add: upgrade_node_content_def rename_sql_attr_fixed dict_has_def)

lemma pop_depends_on_nodes_idem:
  assumes "pop_depends_on_nodes d = Inr d'"
  shows "pop_depends_on_nodes d' = Inr d'"
  using assms
  by (auto simp add: pop_depends_on_nodes_def map_of_dict_set dict_del_idem dict_set_same
      split: option.splits json.splits)

lemma pop_depends_on_nodes_map_of:
  assumes "pop_depends_on_nodes d = Inr d'" "k \<noteq> ''depends_on''"
  shows "map_of d' k = map_of d k"
  using assms
  by (auto simp add: pop_depends_on_nodes_def map_of_dict_set
      split: option.splits json.splits)

lemma upgrade_seed_loop_fixed:
  assumes "\<forall>a \<in> set attrs. map_of y a = None" "pop_depends_on_nodes y = Inr y"
  shows "upgrade_seed_loop attrs y = Inr y"
  using assms by (induction attrs) (simp_all add: dict_has_def)

lemma upgrade_seed_loop_result:
  assumes "upgrade_seed_loop attrs d = Inr y" "''depends_on'' \<notin> set attrs"
  shows "(\<forall>a \<in> set attrs. map_of y a = None)
         \<and> (attrs \<noteq> [] \<longrightarrow> pop_depends_on_nodes y = Inr y)
         \<and> (\<forall>k. map_of d k = None \<longrightarrow> k \<noteq> ''depends_on'' \<longrightarrow> map_of y k = None)
         \<and> (\<forall>k. k \<notin> set attrs \<longrightarrow> k \<noteq> ''depends_on'' \<longrightarrow> map_of y k = map_of d k)"
  using assms
proof (induction attrs arbitrary: d)
  case Nil
  then show ?case by simp
next
  case (Cons a attrs)
  let ?d1 = "if dict_has d a then dict_del a d else d"
  from Cons.prems(1) obtain d2 where
    d2: "pop_depends_on_nodes ?d1 = Inr d2" and rest: "upgrade_seed_loop attrs d2 = Inr y"
    by (auto simp add: then_do_Inr)
  from Cons.prems(2) have a: "a \<noteq> ''depends_on''" and notin: "''depends_on'' \<notin> set attrs"
    by auto
  note ih = Cons.IH [OF rest notin]
  have d1: "map_of ?d1 k = (if k = a then None else map_of d k)" for k
    by (simp add: map_of_dict_del dict_has_def)
  have d2k: "map_of d2 k = (if k = a then None else map_of d k)" if "k \<noteq> ''depends_on''" for k
    using pop_depends_on_nodes_map_of [OF d2 that] d1 by simp
  have abs_a: "map_of y a = None"
    using ih d2k [of a] a by simp
  have fixed: "pop_depends_on_nodes y = Inr y"
  proof (cases attrs)
    case Nil
    with rest have "y = d2" by simp
    with pop_depends_on_nodes_idem [OF d2] show ?thesis by simp
  next
    case (Cons b bs)
    with ih show ?thesis by simp
  qed
  have keep_none: "map_of y k = None" if "map_of d k = None" "k \<noteq> ''depends_on''" for k
    using ih d2k [OF that(2)] that by simp
  have keep: "map_of y k = map_of d k" if "k \<notin> set (a # attrs)" "k \<noteq> ''depends_on''" for k
    using ih d2k [OF that(2)] that by simp
  from abs_a ih fixed keep_none keep show ?case by simp
qed

lemma seed_attr_names_no_depends_on: "''depends_on'' \<notin> set seed_attr_names"
  by (simp add: seed_attr_names_def)

lemma upgrade_node_entry_idem:
  assumes "upgrade_node_entry x = Inr z"
  shows "upgrade_node_entry z = Inr z"
proof -
  from assms obtain y0 where y0: "upgrade_node_content x = Inr y0"
    and rest: "(case map_of y0 ''resource_type'' of
         None \<Rightarrow> Inl (KeyError ''resource_type'')
       | Some resource_type \<Rightarrow>
           if resource_type = JStr ''seed''
           then then_do (upgrade_seed_content y0) (\<lambda>d'. Inr (JDict d'))
           else Inr (JDict y0)) = Inr z"
    unfolding upgrade_node_entry_def then_do_Inr by blast
  from upgrade_node_content_result [OF y0] obtain rt where
    raw: "map_of y0 ''raw_sql'' = None" and comp: "map_of y0 ''compiled_sql'' = None"
    and lang: "map_of y0 ''language'' = Some (JStr ''sql'')"
    and rt: "map_of y0 ''resource_type'' = Some rt"
    and root: "rt \<noteq> JStr ''seed'' \<longrightarrow> map_of y0 ''root_path'' = None"
    by blast
  show ?thesis
  proof (cases "rt = JStr ''seed''")
    case False
    with rest rt have z: "z = JDict y0" by simp
    from upgrade_node_content_fixed [OF raw comp lang rt root] False rt
    show ?thesis unfolding z upgrade_node_entry_def by simp
  next
    case True
    with rest rt obtain y where seed: "upgrade_seed_loop seed_attr_names y0 = Inr y"
      and z: "z = JDict y"
      by (auto simp add: then_do_Inr upgrade_seed_content_def)
    note res = upgrade_seed_loop_result [OF seed seed_attr_names_no_depends_on]
    have absent: "\<forall>a \<in> set seed_attr_names. map_of y a = None" using res by blast
    have fixed: "pop_depends_on_nodes y = Inr y"
      using res by (simp add: seed_attr_names_def)
    have raw': "map_of y ''raw_sql'' = None" using res raw by simp
    have comp': "map_of y ''compiled_sql'' = None" using res comp by simp
    have rt': "map_of y ''resource_type'' = Some rt"
      using res rt by (simp add: seed_attr_names_def)
    have lang': "map_of y ''language'' = None"
      using absent by (simp add: seed_attr_names_def)
    let ?n = "dict_set ''language'' (JStr ''sql'') y"
    have n: "rename_sql_attr (JDict y) = Inr ?n"
      by (rule rename_sql_attr_absent_language [OF raw' comp'])
    have n_rt: "map_of ?n ''resource_type'' = Some rt"
      using rt' by (simp add: map_of_dict_set)
    have content: "upgrade_node_content (JDict y) = Inr ?n"
      unfolding upgrade_node_content_def n using n_rt True by simp
    have first: "dict_del ''language'' ?n = y"
      by (simp add: dict_del_set_same dict_del_absent lang')
    have has: "dict_has ?n ''language''" by (simp add: dict_has_def map_of_dict_set)
    have tail_absent: "\<forall>a \<in> set (tl seed_attr_names). map_of y a = None"
      using absent by (simp add: seed_attr_names_def)
    have "upgrade_seed_loop seed_attr_names ?n
            = then_do (pop_depends_on_nodes (dict_del ''language'' ?n))
                (upgrade_seed_loop (tl seed_attr_names))"
      using has by (simp add: seed_attr_names_def)
    also have "\<dots> = upgrade_seed_loop (tl seed_attr_names) y"
      by (simp add: first fixed)
    also have "\<dots> = Inr y"
      by (rule upgrade_seed_loop_fixed [OF tail_absent fixed])
    finally have "upgrade_seed_content ?n = Inr y" by (simp add: upgrade_seed_content_def)
    with content n_rt True show ?thesis
      unfolding z upgrade_node_entry_def by simp
  qed
qed

subsection \<open>Metrics, root paths and docs\<close>

lemma rename_metric_attr_result:
  assumes "rename_metric_attr x = Inr y"
  shows "(\<exists>nm. map_of y ''name'' = Some nm) \<and> map_of y ''sql'' = None
         \<and> map_of y ''type'' = None
         \<and> dict_get y ''calculation_method'' \<noteq> JStr ''expression''"
proof -
  from assms obtain d where x: "x = JDict d"
    by (cases x) (simp_all add: rename_metric_attr_def)
  from assms obtain nm where nm: "map_of d ''name'' = Some nm"
    unfolding x rename_metric_attr_def by (auto split: option.splits)
  from assms nm show ?thesis
    unfolding x rename_metric_attr_def
    by (auto simp add: then_do_def map_of_move_key map_of_dict_set dict_has_def dict_get_def
        split: if_splits option.splits)
qed

lemma rename_metric_attr_fixed:
  assumes "map_of y ''name'' = Some nm" "map_of y ''sql'' = None" "map_of y ''type'' = None"
    "dict_get y ''calculation_method'' \<noteq> JStr ''expression''"
  shows "rename_metric_attr (JDict y) = Inr y"
  using assms by (simp add: rename_metric_attr_def dict_has_def)

lemma upgrade_metric_entry_idem:
  assumes "upgrade_metric_entry x = Inr z"
  shows "upgrade_metric_entry z = Inr z"
proof -
  from assms obtain y where y: "rename_metric_attr x = Inr y"
    and z: "z = JDict (if dict_has y ''root_path'' then dict_del ''root_path'' y else y)"
    unfolding upgrade_metric_entry_def then_do_Inr by auto
  let ?y = "if dict_has y ''root_path'' then dict_del ''root_path'' y else y"
  from rename_metric_attr_result [OF y] obtain nm where
    r: "map_of y ''name'' = Some nm" "map_of y ''sql'' = None" "map_of y ''type'' = None"
       "dict_get y ''calculation_method'' \<noteq> JStr ''expression''"
    by blast
  have k: "map_of ?y k = (if k = ''root_path'' then None else map_of y k)" for k
    by (simp add: map_of_dict_del dict_has_def)
  have "rename_metric_attr (JDict ?y) = Inr ?y"
  proof (rule rename_metric_attr_fixed)
    show "map_of ?y ''name'' = Some nm" using r(1) by (simp only: k) simp
    show "map_of ?y ''sql'' = None" using r(2) by (simp only: k) simp
    show "map_of ?y ''type'' = None" using r(3) by (simp only: k) simp
    show "dict_get ?y ''calculation_method'' \<noteq> JStr ''expression''"
      using r(4) unfolding dict_get_def by (simp only: k) simp
  qed
  moreover have "\<not> dict_has ?y ''root_path''"
    by (simp add: dict_has_def map_of_dict_del)
  ultimately show ?thesis unfolding z upgrade_metric_entry_def by simp
qed

lemma del_root_path_idem:
  assumes "del_root_path x = Inr z"
  shows "del_root_path z = Inr z"
  using assms
  by (cases x)
     (auto simp add: del_root_path_def dict_has_def map_of_dict_del split: if_splits)

lemma del_root_path_dict:
  assumes "del_root_path x = Inr (JDict d)"
  shows "map_of d ''root_path'' = None"
  using assms
  by (cases x)
     (auto simp add: del_root_path_def dict_has_def map_of_dict_del split: if_splits)

lemma upgrade_doc_entry_idem:
  assumes "upgrade_doc_entry x = Inr z"
  shows "upgrade_doc_entry z = Inr z"
proof (cases "del_root_path x")
  case (Inl e)
  with assms show ?thesis by (simp add: upgrade_doc_entry_def)
next
  case (Inr c)
  show ?thesis
  proof (cases c)
    case (JDict d)
    let ?z = "dict_set ''resource_type'' (JStr ''doc'') d"
    from assms Inr JDict have z: "z = JDict ?z" by (simp add: upgrade_doc_entry_def)
    from Inr JDict have "del_root_path x = Inr (JDict d)" by simp
    from del_root_path_dict [OF this] have "map_of ?z ''root_path'' = None"
      by (simp add: map_of_dict_set)
    then have "del_root_path (JDict ?z) = Inr (JDict ?z)"
      by (simp add: del_root_path_def dict_has_def)
    moreover have "dict_set ''resource_type'' (JStr ''doc'') ?z = ?z"
      by (rule dict_set_same) (simp add: map_of_dict_set)
    ultimately show ?thesis unfolding z upgrade_doc_entry_def by simp
  qed (use assms Inr in \<open>simp_all add: upgrade_doc_entry_def\<close>)
qed

subsection \<open>Loops\<close>

lemma for_each_idem:
  assumes "\<And>x y. f x = Inr y \<Longrightarrow> f y = Inr y" "for_each f xs = Inr ys"
  shows "for_each f ys = Inr ys"
  using assms(2)
proof (induction xs arbitrary: ys)
  case Nil
  then show ?case by simp
next
  case (Cons x xs)
  from Cons.prems obtain y ys' where y: "f x = Inr y" and ys': "for_each f xs = Inr ys'"
    and ys: "ys = y # ys'"
    by (auto simp add: then_do_Inr)
  from assms(1) [OF y] Cons.IH [OF ys'] show ?case unfolding ys by simp
qed

lemma for_each_value_idem:
  assumes "\<And>x y. f x = Inr y \<Longrightarrow> f y = Inr y" "for_each_value f d = Inr d'"
  shows "for_each_value f d' = Inr d'"
  using assms(2)
proof (induction d arbitrary: d')
  case Nil
  then show ?case by simp
next
  case (Cons kv d)
  obtain k v where kv: "kv = (k, v)" by (cases kv)
  from Cons.prems obtain v' d'' where v': "f v = Inr v'"
    and d'': "for_each_value f d = Inr d''" and d': "d' = (k, v') # d''"
    unfolding kv by (auto simp add: then_do_Inr)
  from assms(1) [OF v'] Cons.IH [OF d''] show ?case unfolding d' by simp
qed

lemma upgrade_disabled_entry_idem:
  assumes "upgrade_disabled_entry x = Inr z"
  shows "upgrade_disabled_entry z = Inr z"
proof (cases x)
  case (JList xs)
  with assms obtain ys where ys: "for_each upgrade_node_entry xs = Inr ys" and z: "z = JList ys"
    by (auto simp add: upgrade_disabled_entry_def then_do_Inr)
  from for_each_idem [OF upgrade_node_entry_idem ys]
  show ?thesis unfolding z upgrade_disabled_entry_def by simp
next
  case (JDict d)
  with assms have "z = x" by (auto simp add: upgrade_disabled_entry_def then_do_Inr)
  with assms show ?thesis by simp
next
  case (JStr s)
  with assms have "z = x" by (auto simp add: upgrade_disabled_entry_def then_do_Inr)
  with assms show ?thesis by simp
qed (use assms in \<open>simp_all add: upgrade_disabled_entry_def\<close>)

subsection \<open>Sections\<close>

lemma for_section_other:
  assumes "for_section k f m = Inr m'" "k' \<noteq> k"
  shows "map_of m' k' = map_of m k'"
  using assms
  by (auto simp add: for_section_def then_do_Inr map_of_dict_set
      split: option.splits json.splits)

lemma for_section_idem:
  assumes f: "\<And>x y. f x = Inr y \<Longrightarrow> f y = Inr y" and run: "for_section k f m = Inr m'"
  shows "for_section k f m' = Inr m'"
proof (cases "map_of m k")
  case None
  with run show ?thesis by (simp add: for_section_def)
next
  case (Some v)
  with run obtain d where v: "v = JDict d"
    by (cases v) (simp_all add: for_section_def)
  from run Some v obtain d' where d': "for_each_value f d = Inr d'"
    and m': "m' = dict_set k (JDict d') m"
    by (auto simp add: for_section_def then_do_Inr)
  have look: "map_of m' k = Some (JDict d')" by (simp add: m' map_of_dict_set)
  from for_each_value_idem [OF f d'] have again: "for_each_value f d' = Inr d'" .
  have "dict_set k (JDict d') m' = m'" by (rule dict_set_same [OF look])
  with look again show ?thesis by (simp add: for_section_def)
qed

lemma for_section_fixed:
  assumes fixed: "for_section k f m0 = Inr m0" and same: "map_of m k = map_of m0 k"
  shows "for_section k f m = Inr m"
proof (cases "map_of m0 k")
  case None
  with same show ?thesis by (simp add: for_section_def)
next
  case (Some v)
  with fixed obtain d where v: "v = JDict d"
    by (cases v) (simp_all add: for_section_def)
  from fixed Some v obtain d' where d': "for_each_value f d = Inr d'"
    and m0: "dict_set k (JDict d') m0 = m0"
    by (auto simp add: for_section_def then_do_Inr)
  have "map_of (dict_set k (JDict d') m0) k = Some (JDict d')" by (simp add: map_of_dict_set)
  with m0 Some v have "d' = d" by simp
  with d' have run: "for_each_value f d = Inr d" by simp
  from same Some v have look: "map_of m k = Some (JDict d)" by simp
  have "dict_set k (JDict d) m = m" by (rule dict_set_same [OF look])
  with look run show ?thesis by (simp add: for_section_def)
qed

lemma run_sections_other:
  assumes "run_sections secs m = Inr m'" "k \<notin> fst ` set secs"
  shows "map_of m' k = map_of m k"
  using assms
proof (induction secs arbitrary: m)
  case Nil
  then show ?case by simp
next
  case (Cons s secs)
  obtain k0 f where s: "s = (k0, f)" by (cases s)
  from Cons.prems(1) obtain m1 where m1: "for_section k0 f m = Inr m1"
    and rest: "run_sections secs m1 = Inr m'"
    unfolding s by (auto simp add: then_do_Inr)
  from Cons.prems(2) have k0: "k \<noteq> k0" and notin: "k \<notin> fst ` set secs"
    unfolding s by auto
  from Cons.IH [OF rest notin] for_section_other [OF m1 k0] show ?case by simp
qed

lemma run_sections_idem:
  assumes "distinct (map fst secs)"
    and "\<And>k f x y. (k, f) \<in> set secs \<Longrightarrow> f x = Inr y \<Longrightarrow> f y = Inr y"
    and "run_sections secs m = Inr m'"
  shows "run_sections secs m' = Inr m'"
  using assms
proof (induction secs arbitrary: m)
  case Nil
  then show ?case by simp
next
  case (Cons s secs)
  obtain k f where s: "s = (k, f)" by (cases s)
  from Cons.prems(3) obtain m1 where m1: "for_section k f m = Inr m1"
    and rest: "run_sections secs m1 = Inr m'"
    unfolding s by (auto simp add: then_do_Inr)
  from Cons.prems(1) have k: "k \<notin> fst ` set secs" and dist: "distinct (map fst secs)"
    unfolding s by auto
  have f: "f x = Inr y \<Longrightarrow> f y = Inr y" for x y
    using Cons.prems(2) [of k f x y] unfolding s by simp
  have fs: "(k', f') \<in> set secs \<Longrightarrow> f' x = Inr y \<Longrightarrow> f' y = Inr y" for k' f' x y
    using Cons.prems(2) [of k' f' x y] by simp
  have tail: "run_sections secs m' = Inr m'"
  proof (rule Cons.IH)
    show "distinct (map fst secs)" by (rule dist)
    show "run_sections secs m1 = Inr m'" by (rule rest)
    fix k' f' x y
    assume "(k', f') \<in> set secs" "f' x = Inr y"
    then show "f' y = Inr y" by (rule fs)
  qed
  have "for_section k f m1 = Inr m1" by (rule for_section_idem [OF f m1])
  moreover have "map_of m' k = map_of m1 k" by (rule run_sections_other [OF rest k])
  ultimately have "for_section k f m' = Inr m'" by (rule for_section_fixed)
  with tail show ?case unfolding s by simp
qed

lemma then_do_assoc: "then_do (then_do r f) g = then_do r (\<lambda>x. then_do (f x) g)"
  by (cases r) simp_all

lemma upgrade_manifest_json_sections:
  "upgrade_manifest_json (JDict m)
     = then_do (run_sections manifest_sections m) (\<lambda>m'. Inr (JDict m'))"
  by (simp add: upgrade_manifest_json_def manifest_sections_def then_do_assoc)

lemma manifest_sections_idem:
  assumes "(k, f) \<in> set manifest_sections" "f x = Inr y"
  shows "f y = Inr y"
  using assms
  by (auto simp add: manifest_sections_def
      intro: upgrade_node_entry_idem upgrade_disabled_entry_idem upgrade_metric_entry_idem
        del_root_path_idem upgrade_doc_entry_idem)

lemma manifest_sections_distinct: "distinct (map fst manifest_sections)"
  by (simp add: manifest_sections_def)

text \<open>
  C8: the manifest upgrade pass is idempotent. Whenever \<^verbatim>\<open>upgrade_manifest_json\<close> succeeds
  on a manifest, applying it again to its result succeeds too (it does not raise on data
  that is already upgraded) and returns that result unchanged, key order included.
\<close>

theorem upgrade_manifest_json_idempotent:
  assumes "upgrade_manifest_json manifest = Inr upgraded"
  shows "upgrade_manifest_json upgraded = Inr upgraded"
proof -
  from assms obtain m where manifest: "manifest = JDict m"
    by (cases manifest) (simp_all add: upgrade_manifest_json_def)
  from assms obtain m' where run: "run_sections manifest_sections m = Inr m'"
    and upgraded: "upgraded = JDict m'"
    unfolding manifest upgrade_manifest_json_sections by (auto simp add: then_do_Inr)
  have "run_sections manifest_sections m' = Inr m'"
  proof (rule run_sections_idem)
    show "distinct (map fst manifest_sections)" by (rule manifest_sections_distinct)
    show "run_sections manifest_sections m = Inr m'" by (rule run)
    fix k f x y
    assume "(k, f) \<in> set manifest_sections" "f x = Inr y"
    then show "f y = Inr y" by (rule manifest_sections_idem)
  qed
  then show ?thesis unfolding upgraded upgrade_manifest_json_sections by simp
qed

lemma upgrade_old_manifest: "upgrade_manifest_json old_manifest = Inr upgraded_manifest"
  by code_simp

theorem upgrade_manifest_json_idempotent_witness:
  "upgrade_manifest_json old_manifest = Inr upgraded_manifest
   \<and> upgrade_manifest_json upgraded_manifest = Inr upgraded_manifest"
  using upgrade_old_manifest upgrade_manifest_json_idempotent [OF upgrade_old_manifest]
  by (rule conjI)

section \<open>Schema versions\<close>

text \<open>
  \<^verbatim>\<open>str\<close> of a natural number ends with its last digit and holds no dot, so the schema
  URL of a version splits at its dots into four pieces, and the version read back from it
  is the last digit of the version written.
\<close>

lemma digits_table:
  "\<forall>d \<in> set [0..<10]. digit_value (digit_char d) = Some d \<and> digit_char d \<noteq> CHR ''.''"
  by code_simp

lemma digit_value_digit_char: "d < 10 \<Longrightarrow> digit_value (digit_char d) = Some d"
  using digits_table by simp

lemma digit_char_not_dot: "d < 10 \<Longrightarrow> digit_char d \<noteq> CHR ''.''"
  using digits_table by simp

lemma str_nat_not_empty: "str_nat n \<noteq> []"
  by (subst str_nat.simps) simp

lemma last_str_nat: "last (str_nat n) = digit_char (n mod 10)"
  by (subst str_nat.simps) simp

lemma str_nat_no_dot: "CHR ''.'' \<notin> set (str_nat n)"
proof (induction n rule: str_nat.induct)
  case (1 n)
  show ?case
  proof (cases "n < 10")
    case True
    then have "digit_char n \<noteq> CHR ''.''" by (rule digit_char_not_dot)
    with True show ?thesis by (subst str_nat.simps) auto
  next
    case False
    have "n mod 10 < 10" by simp
    then have "digit_char (n mod 10) \<noteq> CHR ''.''" by (rule digit_char_not_dot)
    with 1 False show ?thesis by (subst str_nat.simps) auto
  qed
qed

lemma split_on_no_sep: "c \<notin> set xs \<Longrightarrow> split_on c xs = [xs]"
  by (induction xs) auto

lemma split_on_append: "c \<notin> set xs \<Longrightarrow> split_on c (xs @ c # ys) = xs # split_on c ys"
  by (induction xs) auto

lemma schema_url_parts:
  assumes "CHR ''.'' \<notin> set nm"
  shows "split_on CHR ''.'' (SchemaVersion_str \<lparr> SchemaVersion.name = nm, version = int n \<rparr>)
     = [''https://schemas'', ''getdbt'', ''com/dbt/'' @ nm @ ''/v'' @ str_nat n, ''json'']"
proof -
  have url: "SchemaVersion_str \<lparr> SchemaVersion.name = nm, version = int n \<rparr>
      = ''https://schemas'' @ CHR ''.'' # (''getdbt'' @ CHR ''.'' #
          ((''com/dbt/'' @ nm @ ''/v'' @ str_nat n) @ CHR ''.'' # ''json''))"
    by (simp add: SchemaVersion_str_def SchemaVersion_path_def BASE_SCHEMAS_URL_def str_int_def)
  have piece: "CHR ''.'' \<notin> set (''com/dbt/'' @ nm @ ''/v'' @ str_nat n)"
    using assms str_nat_no_dot [of n] by simp
  have a: "CHR ''.'' \<notin> set ''https://schemas''" by simp
  have b: "CHR ''.'' \<notin> set ''getdbt''" by simp
  have c: "CHR ''.'' \<notin> set ''json''" by simp
  show ?thesis
    unfolding url split_on_append [OF a] split_on_append [OF b] split_on_append [OF piece]
      split_on_no_sep [OF c] ..
qed

lemma get_manifest_schema_version_last_digit:
  assumes "CHR ''.'' \<notin> set nm"
  shows "get_manifest_schema_version
           (JDict [(''metadata'', JDict [(''dbt_schema_version'',
              JStr (SchemaVersion_str \<lparr> SchemaVersion.name = nm, version = int n \<rparr>))])])
         = Inr (int (n mod 10))"
proof -
  let ?url = "SchemaVersion_str \<lparr> SchemaVersion.name = nm, version = int n \<rparr>"
  let ?piece = "''com/dbt/'' @ nm @ ''/v'' @ str_nat n"
  have nonempty: "?url \<noteq> []"
    by (simp add: SchemaVersion_str_def BASE_SCHEMAS_URL_def)
  have last_piece: "last (xs @ str_nat n) = digit_char (n mod 10)" for xs
    using str_nat_not_empty [of n] by (simp add: last_str_nat)
  have last_piece': "last (xs @ a # b # str_nat n) = digit_char (n mod 10)" for xs a b
    using last_piece [of "xs @ [a, b]"] by simp
  have "n mod 10 < 10" by simp
  then have digit: "digit_value (digit_char (n mod 10)) = Some (n mod 10)"
    by (rule digit_value_digit_char)
  show ?thesis
    unfolding get_manifest_schema_version_def py_get_def
    using nonempty
    by (simp add: schema_url_parts [OF assms] last_piece last_piece' digit Let_def
        del: last_appendR last_append)
qed


text \<open>
  C2: the schema version is read as the last character before \<^verbatim>\<open>.json\<close> only, so a
  manifest at schema version 10 is parsed as version 0. Read by the base class, which
  skips the compatibility check, or by a manifest class at version 10, which passes it,
  the manifest is put through the upgrade pass meant for versions up to 7, and the
  language of its Python model is overwritten.
\<close>

theorem read_and_check_versions_v10_upgraded:
  "SchemaVersion_str \<lparr> SchemaVersion.name = ''manifest'', version = 10 \<rparr>
     = ''https://schemas.getdbt.com/dbt/manifest/v10.json''
   \<and> get_manifest_schema_version manifest_v10 = Inr 0
   \<and> read_and_check_versions versioned_schema_base manifest_v10 = Inr manifest_v10_read
   \<and> read_and_check_versions manifest_class_v10 manifest_v10 = Inr manifest_v10_read
   \<and> manifest_v10_read \<noteq> manifest_v10"
  by code_simp

end
